(* ===== verification/Prelude.thy ===== *)
theory Prelude
  imports Complex_Main "HOL-Library.AList"
begin

text \<open>
  Shared vocabulary of the development. JavaScript strings are sequences of
  UTF-16 code units; every string of \<^verbatim>\<open>src/src/App.tsx\<close> consists of
  characters of the Basic Multilingual Plane, so one code unit is one character,
  and a string is modelled as the list of its code units, each a \<open>nat\<close> below
  \<open>2 ^ 16\<close>. ASCII literals are written \<open>js ''...''\<close>; the Chinese
  literals of the source are written as lists of their code points, with the
  pinyin in a comment. An object literal of JavaScript is an association list:
  assignment to a property (\<open>AList.update\<close>) replaces an existing key in place
  and appends a new one, as JavaScript's insertion order does.
\<close>

type_synonym js_string = "nat list"

definition js :: "string \<Rightarrow> js_string" where
  "js s = map of_char s"

text \<open>The one province the source drills into: \<^verbatim>\<open>'Jiangxi Sheng'\<close> (lines 168, 212, 244).\<close>

abbreviation jiangxi :: js_string where
  "jiangxi \<equiv> [0x6C5F, 0x897F, 0x7701]"

text \<open>Facts the component theories add to evaluate their concrete data.\<close>

named_theorems model_data "definitions of the concrete option and table data"

lemma js_Nil: "js [] = []"
  by (simp add: js_def)

lemma js_Cons: "js (c # s) = of_char c # js s"
  by (simp add: js_def)

lemma js_inject [simp]: "js a = js b \<longleftrightarrow> a = b"
proof
  assume "js a = js b"
  then have "map (of_char :: char \<Rightarrow> nat) a = map of_char b"
    by (simp add: js_def)
  moreover have "inj (of_char :: char \<Rightarrow> nat)"
    by (rule injI) simp
  ultimately show "a = b"
    by (simp add: inj_map_eq_map)
qed simp

lemma js_code_units: "c \<in> set (js s) \<Longrightarrow> c < 2 ^ 16"
proof -
  have "of_char x < (2 ^ 16 :: nat)" for x :: char
  proof -
    have "of_char x < (256 :: nat)"
      using of_char_mod_256 [of x] by (metis mod_less_divisor zero_less_numeral)
    then show ?thesis by (rule less_le_trans) simp
  qed
  then show "c \<in> set (js s) \<Longrightarrow> c < 2 ^ 16"
    by (auto simp: js_def)
qed

subsection \<open>Association lists as JavaScript objects\<close>

lemma update_append_fresh:
  "k \<notin> fst ` set al \<Longrightarrow> AList.update k v al = al @ [(k, v)]"
  by (induction al) auto

declare distinct_update [intro]

lemma set_update_values:
  "(k', v') \<in> set (AList.update k v al) \<Longrightarrow> (k', v') = (k, v) \<or> (k', v') \<in> set al"
  by (induction al) (auto split: if_splits)

end
