(* ===== verification/Json.thy ===== *)
theory Json
  imports Prelude
begin

text \<open>
  The option objects that \<^verbatim>\<open>App.tsx\<close> hands to \<^verbatim>\<open>setOption\<close> are JavaScript
  object literals: numbers, strings, booleans, arrays, nested objects and, for the
  label formatters, functions. This theory models them as a datatype, gives the
  path lookup used to read a setting (\<open>jget\<close>, after the lookup of nested
  environments), the well-formedness of a value (no object repeats a key) and the
  deep merge with which the chart engine combines a new option with the current one
  (\<open>jmerge\<close>: zrender's \<^verbatim>\<open>util.merge(target, source, true)\<close>, which
  \<^verbatim>\<open>setOption(option)\<close> applies when \<^verbatim>\<open>notMerge\<close> is not set). Its lemmas
  say what survives a merge: every leaf of the new option, and, where the new option
  says nothing, the old one.
\<close>

text \<open>
  A function value (the formatters of lines 125--127 and 144--146) ignores its
  argument and returns a constant string; the model records that string.
  Numbers are rationals: the options only carry numeric literals, and no code of the
  program computes with them.
\<close>

datatype jval =
    JNum rat
  | JStr js_string
  | JBool bool
  | JArr "jval list"
  | JObj "(js_string \<times> jval) list"
  | JFun js_string

fun is_obj :: "jval \<Rightarrow> bool" where
  "is_obj (JObj _) = True"
| "is_obj _ = False"

text \<open>No object of a value repeats a key: an object literal's own keys.\<close>

fun wf_json :: "jval \<Rightarrow> bool" where
  "wf_json (JObj fs) = (distinct (map fst fs) \<and> list_all (\<lambda>kv. wf_json (snd kv)) fs)"
| "wf_json (JArr vs) = list_all wf_json vs"
| "wf_json _ = True"

text \<open>Reading a setting by its path of keys (\<open>option.geo.map\<close> is the path
  \<open>[js ''geo'', js ''map'']\<close>).\<close>

fun jget :: "jval \<Rightarrow> js_string list \<Rightarrow> jval option" where
  "jget v [] = Some v"
| "jget (JObj fs) (k # p) = (case map_of fs k of None \<Rightarrow> None | Some v \<Rightarrow> jget v p)"
| "jget _ (_ # _) = None"

text \<open>
  zrender's \<^verbatim>\<open>merge(target, source, overwrite)\<close> with \<open>overwrite = true\<close>:
  for each own key of the source, in order, when both sides hold a plain object the
  two are merged recursively, and otherwise the target's entry is set to (a clone of)
  the source's; keys of the target that the source does not mention are kept. A
  source that is not an object replaces the target.
\<close>

fun jmerge :: "jval \<Rightarrow> jval \<Rightarrow> jval"
  and jmerge_fields :: "(js_string \<times> jval) list \<Rightarrow> (js_string \<times> jval) list \<Rightarrow> (js_string \<times> jval) list"
where
  "jmerge (JObj ts) (JObj ss) = JObj (jmerge_fields ts ss)"
| "jmerge t s = s"
| "jmerge_fields ts [] = ts"
| "jmerge_fields ts ((k, v) # ss) =
     jmerge_fields
       (AList.update k (case map_of ts k of None \<Rightarrow> v | Some t \<Rightarrow> jmerge t v) ts) ss"

subsection \<open>Lookup\<close>

lemma jget_append:
  "jget v (p @ q) = (case jget v p of None \<Rightarrow> None | Some u \<Rightarrow> jget u q)"
proof (induction v p rule: jget.induct)
  case (2 fs k p)
  then show ?case by (simp split: option.splits)
qed simp_all

lemma jget_JObj_Cons [simp]:
  "jget (JObj fs) (k # p) = Option.bind (map_of fs k) (\<lambda>v. jget v p)"
  by (simp split: option.splits)

declare jget.simps(2) [simp del]

subsection \<open>The merge, field by field\<close>

lemma map_of_jmerge_fields:
  "distinct (map fst ss) \<Longrightarrow>
   map_of (jmerge_fields ts ss) k =
     (case map_of ss k of
        None \<Rightarrow> map_of ts k
      | Some u \<Rightarrow> Some (case map_of ts k of None \<Rightarrow> u | Some t \<Rightarrow> jmerge t u))"
proof (induction ss arbitrary: ts)
  case Nil
  then show ?case by simp
next
  case (Cons kv ss)
  obtain k' v where kv: "kv = (k', v)" by (cases kv)
  with Cons.prems have fresh: "k' \<notin> fst ` set ss" and dss: "distinct (map fst ss)"
    by auto
  let ?ts = "AList.update k' (case map_of ts k' of None \<Rightarrow> v | Some t \<Rightarrow> jmerge t v) ts"
  have IH: "map_of (jmerge_fields ?ts ss) k =
     (case map_of ss k of None \<Rightarrow> map_of ?ts k
      | Some u \<Rightarrow> Some (case map_of ?ts k of None \<Rightarrow> u | Some t \<Rightarrow> jmerge t u))"
    using dss by (rule Cons.IH)
  have ts_k: "map_of ?ts k =
     (if k = k' then Some (case map_of ts k' of None \<Rightarrow> v | Some t \<Rightarrow> jmerge t v)
      else map_of ts k)"
    by (simp add: update_conv)
  show ?case
  proof (cases "k = k'")
    case True
    with fresh have "map_of ss k = None"
      by (simp add: map_of_eq_None_iff)
    with True IH ts_k kv show ?thesis
      by (simp split: option.split)
  next
    case False
    with IH ts_k kv show ?thesis
      by (simp split: option.split)
  qed
qed

lemma keys_jmerge_fields:
  "fst ` set (jmerge_fields ts ss) = fst ` set ts \<union> fst ` set ss"
proof (induction ss arbitrary: ts)
  case (Cons kv ss)
  then show ?case
    by (cases kv) (auto simp: dom_update)
qed simp

lemma jmerge_fields_fresh:
  "distinct (map fst ss) \<Longrightarrow> fst ` set ts \<inter> fst ` set ss = {} \<Longrightarrow>
   jmerge_fields ts ss = ts @ ss"
proof (induction ss arbitrary: ts)
  case (Cons kv ss)
  obtain k v where kv: "kv = (k, v)" by (cases kv)
  with Cons.prems have new: "k \<notin> fst ` set ts"
    by auto
  then have "map_of ts k = None"
    by (simp add: map_of_eq_None_iff)
  with new kv have "jmerge_fields ts (kv # ss) = jmerge_fields (ts @ [(k, v)]) ss"
    by (simp add: update_append_fresh)
  also have "\<dots> = (ts @ [(k, v)]) @ ss"
    using Cons.prems kv by (intro Cons.IH) auto
  finally show ?case
    using kv by simp
qed simp

lemma jmerge_fields_same:
  "distinct (map fst ts) \<Longrightarrow>
   list_all (\<lambda>kv. map_of ts (fst kv) = Some (snd kv) \<and> jmerge (snd kv) (snd kv) = snd kv) ss \<Longrightarrow>
   jmerge_fields ts ss = ts"
proof (induction ss)
  case (Cons kv ss)
  obtain k v where kv: "kv = (k, v)" by (cases kv)
  with Cons.prems have m: "map_of ts k = Some v" and j: "jmerge v v = v"
    by (simp_all del: map_of_eq_Some_iff)
  then have "jmerge_fields ts (kv # ss) = jmerge_fields ts ss"
    using kv by (simp add: update_triv del: map_of_eq_Some_iff)
  with Cons show ?case
    by simp
qed simp

subsection \<open>What a merge keeps\<close>

lemma wf_json_JObj_values:
  "wf_json (JObj fs) \<Longrightarrow> (k, v) \<in> set fs \<Longrightarrow> wf_json v"
  by (auto simp: list_all_iff)

lemma jmerge_wf:
  "wf_json t \<Longrightarrow> wf_json s \<Longrightarrow> wf_json (jmerge t s)"
  "distinct (map fst ts) \<Longrightarrow> list_all (\<lambda>kv. wf_json (snd kv)) ts \<Longrightarrow>
   list_all (\<lambda>kv. wf_json (snd kv)) ss \<Longrightarrow>
   distinct (map fst (jmerge_fields ts ss)) \<and> list_all (\<lambda>kv. wf_json (snd kv)) (jmerge_fields ts ss)"
proof (induction t s and ts ss rule: jmerge_jmerge_fields.induct)
  case (4 ts k v ss)
  let ?u = "case map_of ts k of None \<Rightarrow> v | Some t \<Rightarrow> jmerge t v"
  have "wf_json ?u"
  proof (cases "map_of ts k")
    case None
    with "4.prems" show ?thesis by simp
  next
    case (Some t)
    then have "(k, t) \<in> set ts" by (rule map_of_SomeD)
    with "4.prems" have "wf_json t" by (auto simp: list_all_iff)
    with Some "4.prems" show ?thesis by (simp add: "4.IH"(1))
  qed
  then have "list_all (\<lambda>kv. wf_json (snd kv)) (AList.update k ?u ts)"
    using "4.prems"(2) by (auto simp: list_all_iff dest: set_update_values)
  moreover have "distinct (map fst (AList.update k ?u ts))"
    using "4.prems"(1) by (rule distinct_update)
  moreover have "list_all (\<lambda>kv. wf_json (snd kv)) ss"
    using "4.prems"(3) by simp
  ultimately show ?case
    using "4.IH"(2) by simp
qed (auto simp: list_all_iff)

lemma jmerge_keeps_leaf:
  "wf_json s \<Longrightarrow> jget s p = Some v \<Longrightarrow> \<not> is_obj v \<Longrightarrow> jget (jmerge t s) p = Some v"
proof (induction p arbitrary: t s)
  case Nil
  then show ?case by (cases t; cases s) auto
next
  case (Cons k p)
  from Cons.prems(2) obtain ss u where s: "s = JObj ss" and ku: "map_of ss k = Some u"
    and pu: "jget u p = Some v"
    by (cases s) (auto split: bind_splits)
  have dss: "distinct (map fst ss)" and wu: "wf_json u"
    using Cons.prems(1) s ku by (auto simp: list_all_iff dest: map_of_SomeD)
  show ?case
  proof (cases t)
    case (JObj ts)
    show ?thesis
    proof (cases "map_of ts k")
      case None
      with JObj s ku pu dss show ?thesis
        by (simp add: map_of_jmerge_fields)
    next
      case (Some t')
      have "jget (jmerge t' u) p = Some v"
        using wu pu Cons.prems(3) by (rule Cons.IH)
      with JObj Some s ku dss show ?thesis
        by (simp add: map_of_jmerge_fields)
    qed
  qed (use s Cons.prems(2) in simp_all)
qed

lemma jmerge_same:
  "wf_json s \<Longrightarrow> jmerge s s = s"
proof (induction s)
  case (JObj fs)
  have "jmerge_fields fs fs = fs"
  proof (rule jmerge_fields_same)
    show "distinct (map fst fs)" using JObj.prems by simp
    show "list_all (\<lambda>kv. map_of fs (fst kv) = Some (snd kv) \<and> jmerge (snd kv) (snd kv) = snd kv) fs"
      unfolding list_all_iff
    proof
      fix kv assume kv: "kv \<in> set fs"
      obtain k v where kv_eq: "kv = (k, v)" by (cases kv)
      from JObj.prems kv kv_eq have "wf_json v" by (auto simp: list_all_iff)
      with JObj.IH kv kv_eq have "jmerge v v = v" by (auto intro: snds.intros)
      with JObj.prems kv kv_eq show "map_of fs (fst kv) = Some (snd kv) \<and> jmerge (snd kv) (snd kv) = snd kv"
        by simp
    qed
  qed
  then show ?case by simp
qed simp_all

lemma jmerge_into_empty:
  "wf_json s \<Longrightarrow> jmerge (JObj []) s = s"
  by (cases s) (simp_all add: jmerge_fields_fresh)


end
