(* ===== verification/Options.thy ===== *)
theory Options
  imports Json
begin

text \<open>
  The two option objects of \<^verbatim>\<open>App.tsx\<close>, transcribed key by key in the
  source's order: \<open>china_option\<close> (\<^verbatim>\<open>chinaOption\<close>, lines 15--153, the
  national view) and \<open>jx_option\<close> (\<^verbatim>\<open>jxOption\<close>, lines 155--195, the
  Jiangxi view). Both are constants of the component: the closures of the effect
  capture them, and every \<^verbatim>\<open>setOption\<close> of the program passes one of them.
  The lemmas read the settings the rest of the development depends on: which
  registered map each view draws (\<open>geo.map\<close>) and that both are well formed.
\<close>

definition china_option :: jval where
  "china_option = JObj [
    (js ''backgroundColor'', JStr (js ''#fff'')),
    (js ''title'', JObj [
      (js ''top'', JNum 20),
      (js ''text'', JStr [0x5168, 0x56FD, 0x5730, 0x56FE]),  \<comment> \<open>Quanguo ditu\<close>
      (js ''subtext'', JStr (js '''')),
      (js ''x'', JStr (js ''center'')),
      (js ''textStyle'', JObj [(js ''color'', JStr (js ''#000''))])]),
    (js ''tooltip'', JObj [(js ''trigger'', JStr (js ''item''))]),
    (js ''geo'', JObj [
      (js ''type'', JStr (js ''map'')),
      (js ''map'', JStr (js ''china'')),
      (js ''roam'', JBool True),
      (js ''zoom'', JNum 1.1),
      (js ''label'', JObj [
        (js ''normal'', JObj [
          (js ''show'', JBool True),
          (js ''textStyle'', JObj [(js ''color'', JStr (js ''#000000''))])]),
        (js ''emphasis'', JObj [
          (js ''textStyle'', JObj [(js ''color'', JStr (js ''#ff4242''))])])]),
      (js ''itemStyle'', JObj [
        (js ''normal'', JObj [
          (js ''areaColor'', JStr (js ''#EEEEEE'')),
          (js ''borderColor'', JStr (js ''#ff5555''))]),
        (js ''emphasis'', JObj [(js ''areaColor'', JStr (js ''#ffffff''))])])]),
    (js ''visualMap'', JObj [
      (js ''right'', JStr (js ''20'')),
      (js ''bottom'', JStr (js ''20'')),
      (js ''min'', JNum 100),
      (js ''max'', JNum 10000),
      (js ''inRange'', JObj [(js ''color'', JArr [JStr (js ''#84f670''), JStr (js ''#ff4260'')])]),
      (js ''text'', JArr [JStr [0x9AD8], JStr [0x4F4E]]),  \<comment> \<open>gao, di\<close>
      (js ''calculable'', JBool True)]),
    (js ''series'', JArr [
      JObj [
        (js ''type'', JStr (js ''map'')),
        (js ''name'', JStr (js ''mapName'')),
        (js ''geoIndex'', JNum 0),
        (js ''roam'', JBool True),
        (js ''map'', JStr (js ''china'')),
        (js ''data'', JArr [
          JObj [(js ''name'', JStr [0x5B89, 0x5FBD, 0x7701]), (js ''value'', JNum 2000)],  \<comment> \<open>Anhui Sheng\<close>
          JObj [(js ''name'', JStr [0x53F0, 0x6E7E, 0x7701]), (js ''value'', JNum 5000)],  \<comment> \<open>Taiwan Sheng\<close>
          JObj [(js ''name'', JStr [0x56DB, 0x5DDD, 0x7701]), (js ''value'', JNum 8000)]]),  \<comment> \<open>Sichuan Sheng\<close>
        (js ''itemStyle'', JObj [
          (js ''areaColor'', JStr (js ''#459bd0'')),
          (js ''borderColor'', JStr (js ''rgba(37,213,94,0.58)''))]),
        (js ''emphasis'', JObj [
          (js ''itemStyle'', JObj [(js ''areaColor'', JStr (js ''#90eaff'')), (js ''borderWidth'', JNum 2)])]),
        (js ''select'', JObj [
          (js ''itemStyle'', JObj [(js ''areaColor'', JStr (js ''#90eaff'')), (js ''borderWidth'', JNum 2)])]),
        (js ''label'', JObj [
          (js ''show'', JBool True), (js ''fontSize'', JNum 12), (js ''fontWeight'', JNum 400),
          (js ''color'', JStr (js ''#484848''))])],
      JObj [
        (js ''type'', JStr (js ''scatter'')),
        (js ''name'', JStr (js ''scatterName'')),
        (js ''coordinateSystem'', JStr (js ''geo'')),
        (js ''symbol'', JStr (js ''diamond'')),
        (js ''symbolSize'', JNum 20),
        (js ''encode'', JObj [(js ''lat'', JStr (js ''lat'')), (js ''lng'', JStr (js ''lng''))]),
        (js ''label'', JObj [
          (js ''show'', JBool True), (js ''fontSize'', JNum 12), (js ''fontWeight'', JNum 400),
          (js ''color'', JStr (js ''#484848'')),
          (js ''formatter'', JFun [0xA5])]),  \<comment> \<open>the yen sign\<close>
        (js ''data'', JArr [
          JObj [(js ''name'', JStr [0x54C8, 0x5C14, 0x6EE8, 0x5E02]),  \<comment> \<open>Haerbin Shi\<close>
                (js ''value'', JArr [JNum 126.642464, JNum 45.756967, JNum 6000])]])],
      JObj [
        (js ''type'', JStr (js ''effectScatter'')),
        (js ''name'', JStr (js ''effectScatterName'')),
        (js ''coordinateSystem'', JStr (js ''geo'')),
        (js ''symbolSize'', JNum 15),
        (js ''encode'', JObj [(js ''value'', JNum 2)]),
        (js ''label'', JObj [
          (js ''show'', JBool True), (js ''fontSize'', JNum 12), (js ''fontWeight'', JNum 400),
          (js ''color'', JStr (js ''#484848'')),
          (js ''formatter'', JFun (js ''$''))]),
        (js ''data'', JArr [
          JObj [(js ''name'', JStr [0x6D4E, 0x5357, 0x5E02]),  \<comment> \<open>Jinan Shi\<close>
                (js ''value'', JArr [JNum 117.000923, JNum 36.675807, JNum 9000])]])]])]"

definition jx_option :: jval where
  "jx_option = JObj [
    (js ''backgroundColor'', JStr (js ''#fff'')),
    (js ''title'', JObj [
      (js ''top'', JNum 20),
      (js ''text'', JStr [0x7528, 0x6237, 0x6CE8, 0x518C, 0x533A, 0x57DF, 0x5C55, 0x793A]),
        \<comment> \<open>Yonghu zhuce quyu zhanshi\<close>
      (js ''subtext'', JStr (js '''')),
      (js ''x'', JStr (js ''center'')),
      (js ''textStyle'', JObj [(js ''color'', JStr (js ''#000''))])]),
    (js ''geo'', JObj [
      (js ''type'', JStr (js ''map'')),
      (js ''map'', JStr jiangxi),
      (js ''roam'', JBool True),
      (js ''geoIndex'', JNum 1),
      (js ''zoom'', JNum 1.1),
      (js ''label'', JObj [
        (js ''normal'', JObj [
          (js ''show'', JBool True),
          (js ''textStyle'', JObj [(js ''color'', JStr (js ''#000000''))])]),
        (js ''emphasis'', JObj [
          (js ''textStyle'', JObj [(js ''color'', JStr (js ''#000000''))])])]),
      (js ''itemStyle'', JObj [
        (js ''normal'', JObj [
          (js ''areaColor'', JStr (js ''#EEEEEE'')),
          (js ''borderColor'', JStr (js ''#8b8b8b''))]),
        (js ''emphasis'', JObj [(js ''areaColor'', JStr (js ''#ffffff''))])])])]"

declare china_option_def [model_data] jx_option_def [model_data]

text \<open>The key path of the map a view draws, \<^verbatim>\<open>option.geo.map\<close>.\<close>

abbreviation geo_map_path :: "js_string list" where
  "geo_map_path \<equiv> [js ''geo'', js ''map'']"

lemma china_option_wf: "wf_json china_option"
  by (simp add: china_option_def)

lemma jx_option_wf: "wf_json jx_option"
  by (simp add: jx_option_def)

lemma china_option_geo_map: "jget china_option geo_map_path = Some (JStr (js ''china''))"
  by (simp add: china_option_def)

lemma jx_option_geo_map: "jget jx_option geo_map_path = Some (JStr jiangxi)"
  by (simp add: jx_option_def)

end
