(* ===== verification/Regions.thy ===== *)
theory Regions
  imports Prelude
begin

text \<open>
  The lookup table \<^verbatim>\<open>nameToCode\<close> (\<^verbatim>\<open>App.tsx\<close> lines 197--233) and the
  property read \<^verbatim>\<open>nameToCode[params.name]\<close> with which the click handler
  classifies a clicked feature (line 243). The table is an object literal, so the
  read follows JavaScript's semantics: an own key gives its code, and a key that
  is not an own property is looked up on \<^verbatim>\<open>Object.prototype\<close>, whose members
  (\<^verbatim>\<open>toString\<close>, \<^verbatim>\<open>constructor\<close>, \<dots>) are functions or objects and so
  truthy; anything else is \<^verbatim>\<open>undefined\<close>. The handler tests the result for
  truthiness only.
\<close>

definition name_to_code :: "(js_string \<times> int) list" where
  "name_to_code = [
    ([0x4E2D, 0x56FD], 100000),                                        \<comment> \<open>Zhongguo\<close>
    ([0x5317, 0x4EAC, 0x5E02], 110000),                                \<comment> \<open>Beijing Shi\<close>
    ([0x5929, 0x6D25, 0x5E02], 120000),                                \<comment> \<open>Tianjin Shi\<close>
    ([0x6CB3, 0x5317, 0x7701], 130000),                                \<comment> \<open>Hebei Sheng\<close>
    ([0x5C71, 0x897F, 0x7701], 140000),                                \<comment> \<open>Shanxi Sheng\<close>
    ([0x5185, 0x8499, 0x53E4, 0x81EA, 0x6CBB, 0x533A], 150000),        \<comment> \<open>Nei Menggu\<close>
    ([0x8FBD, 0x5B81, 0x7701], 210000),                                \<comment> \<open>Liaoning Sheng\<close>
    ([0x5409, 0x6797, 0x7701], 220000),                                \<comment> \<open>Jilin Sheng\<close>
    ([0x9ED1, 0x9F99, 0x6C5F, 0x7701], 230000),                        \<comment> \<open>Heilongjiang Sheng\<close>
    ([0x4E0A, 0x6D77, 0x5E02], 310000),                                \<comment> \<open>Shanghai Shi\<close>
    ([0x6C5F, 0x82CF, 0x7701], 320000),                                \<comment> \<open>Jiangsu Sheng\<close>
    ([0x6D59, 0x6C5F, 0x7701], 330000),                                \<comment> \<open>Zhejiang Sheng\<close>
    ([0x5B89, 0x5FBD, 0x7701], 340000),                                \<comment> \<open>Anhui Sheng\<close>
    ([0x798F, 0x5EFA, 0x7701], 350000),                                \<comment> \<open>Fujian Sheng\<close>
    ([0x6C5F, 0x897F, 0x7701], 360000),                                \<comment> \<open>Jiangxi Sheng\<close>
    ([0x5C71, 0x4E1C, 0x7701], 370000),                                \<comment> \<open>Shandong Sheng\<close>
    ([0x6CB3, 0x5357, 0x7701], 410000),                                \<comment> \<open>Henan Sheng\<close>
    ([0x6E56, 0x5317, 0x7701], 420000),                                \<comment> \<open>Hubei Sheng\<close>
    ([0x6E56, 0x5357, 0x7701], 430000),                                \<comment> \<open>Hunan Sheng\<close>
    ([0x5E7F, 0x4E1C, 0x7701], 440000),                                \<comment> \<open>Guangdong Sheng\<close>
    ([0x5E7F, 0x897F, 0x58EE, 0x65CF, 0x81EA, 0x6CBB, 0x533A], 450000),\<comment> \<open>Guangxi\<close>
    ([0x6D77, 0x5357, 0x7701], 460000),                                \<comment> \<open>Hainan Sheng\<close>
    ([0x91CD, 0x5E86, 0x5E02], 500000),                                \<comment> \<open>Chongqing Shi\<close>
    ([0x56DB, 0x5DDD, 0x7701], 510000),                                \<comment> \<open>Sichuan Sheng\<close>
    ([0x8D35, 0x5DDE, 0x7701], 520000),                                \<comment> \<open>Guizhou Sheng\<close>
    ([0x4E91, 0x5357, 0x7701], 530000),                                \<comment> \<open>Yunnan Sheng\<close>
    ([0x897F, 0x85CF, 0x81EA, 0x6CBB, 0x533A], 540000),                \<comment> \<open>Xizang\<close>
    ([0x9655, 0x897F, 0x7701], 610000),                                \<comment> \<open>Shaanxi Sheng\<close>
    ([0x7518, 0x8083, 0x7701], 620000),                                \<comment> \<open>Gansu Sheng\<close>
    ([0x9752, 0x6D77, 0x7701], 630000),                                \<comment> \<open>Qinghai Sheng\<close>
    ([0x5B81, 0x590F, 0x56DE, 0x65CF, 0x81EA, 0x6CBB, 0x533A], 640000),\<comment> \<open>Ningxia\<close>
    ([0x65B0, 0x7586, 0x7EF4, 0x543E, 0x5C14, 0x81EA, 0x6CBB, 0x533A], 650000), \<comment> \<open>Xinjiang\<close>
    ([0x53F0, 0x6E7E, 0x7701], 710000),                                \<comment> \<open>Taiwan Sheng\<close>
    ([0x9999, 0x6E2F, 0x7279, 0x522B, 0x884C, 0x653F, 0x533A], 810000),\<comment> \<open>Xianggang\<close>
    ([0x6FB3, 0x95E8, 0x7279, 0x522B, 0x884C, 0x653F, 0x533A], 820000)]" \<comment> \<open>Aomen\<close>

declare name_to_code_def [model_data]

text \<open>
  The properties an object literal inherits from \<^verbatim>\<open>Object.prototype\<close>
  (ECMAScript 2022, section 20.1.3 and Annex B.2.2). Each is a function, except
  \<^verbatim>\<open>__proto__\<close>, whose getter returns \<^verbatim>\<open>Object.prototype\<close>; all are truthy.
\<close>

definition object_prototype_keys :: "js_string list" where
  "object_prototype_keys = map js [''constructor'', ''hasOwnProperty'', ''isPrototypeOf'',
     ''propertyIsEnumerable'', ''toLocaleString'', ''toString'', ''valueOf'',
     ''__defineGetter__'', ''__defineSetter__'', ''__lookupGetter__'', ''__lookupSetter__'',
     ''__proto__'']"

text \<open>The value a property read yields, as far as the handler can tell them apart.\<close>

datatype js_prop = JsUndefined | JsNumber int | JsInherited js_string

definition name_to_code_get :: "js_string \<Rightarrow> js_prop" where
  "name_to_code_get name =
     (case map_of name_to_code name of
        Some c \<Rightarrow> JsNumber c
      | None \<Rightarrow> if name \<in> set object_prototype_keys then JsInherited name else JsUndefined)"

fun js_truthy :: "js_prop \<Rightarrow> bool" where
  "js_truthy JsUndefined = False"
| "js_truthy (JsNumber n) = (n \<noteq> 0)"
| "js_truthy (JsInherited _) = True"

text \<open>The region index of the specification (RegionNameIndex): the table's own keys only.\<close>

abbreviation region_code :: "js_string \<Rightarrow> int option" where
  "region_code \<equiv> map_of name_to_code"

subsection \<open>The table\<close>

lemma name_to_code_distinct_keys: "distinct (map fst name_to_code)"
  by (simp add: name_to_code_def)

lemma name_to_code_codes_nonzero: "(n, c) \<in> set name_to_code \<Longrightarrow> c \<noteq> 0"
  by (auto simp: name_to_code_def)

lemma object_prototype_keys_not_regions:
  "k \<in> set object_prototype_keys \<Longrightarrow> region_code k = None"
proof -
  have "list_all (\<lambda>k. region_code k = None) object_prototype_keys"
    by (simp add: object_prototype_keys_def name_to_code_def js_def)
  then show "k \<in> set object_prototype_keys \<Longrightarrow> region_code k = None"
    by (simp add: list_all_iff)
qed

text \<open>
  C15. The test \<^verbatim>\<open>if (nameToCode[params.name])\<close> of line 243 succeeds exactly for
  the names of the table and for the names of the properties every object inherits
  from \<^verbatim>\<open>Object.prototype\<close>: no code of the table is 0, so no region is
  mistaken for an unknown name, but the inherited names are mistaken for regions.
\<close>

theorem name_to_code_get_truthy:
  "js_truthy (name_to_code_get name) \<longleftrightarrow>
   region_code name \<noteq> None \<or> name \<in> set object_prototype_keys"
proof (cases "region_code name")
  case (Some c)
  then have "c \<noteq> 0"
    by (auto dest: map_of_SomeD name_to_code_codes_nonzero)
  with Some show ?thesis by (simp add: name_to_code_get_def)
qed (simp add: name_to_code_get_def)

theorem name_to_code_get_truthy_witness:
  "js_truthy (name_to_code_get (js ''constructor'')) \<and> region_code (js ''constructor'') = None"
proof -
  have k: "js ''constructor'' \<in> set object_prototype_keys"
    by (simp add: object_prototype_keys_def)
  have n: "region_code (js ''constructor'') = None"
    using k by (rule object_prototype_keys_not_regions)
  show ?thesis
    using name_to_code_get_truthy [of "js ''constructor''"] k n by simp
qed

lemma region_code_truthy:
  "region_code name \<noteq> None \<Longrightarrow> js_truthy (name_to_code_get name)"
proof -
  assume "region_code name \<noteq> None"
  then obtain c where c: "region_code name = Some c" by blast
  then have "c \<noteq> 0"
    by (blast dest: map_of_SomeD name_to_code_codes_nonzero)
  with c show ?thesis by (simp add: name_to_code_get_def)
qed

lemma jiangxi_code: "region_code jiangxi = Some 360000"
  by (simp add: name_to_code_def)

end
