(* ===== verification/Chart.thy ===== *)
theory Chart
  imports Json
begin

text \<open>
  The charting surface the component drives: the \<^verbatim>\<open>echarts\<close> library, reached
  through \<^verbatim>\<open>init\<close>, \<^verbatim>\<open>registerMap\<close>, \<^verbatim>\<open>setOption\<close>, \<^verbatim>\<open>on\<close>,
  \<^verbatim>\<open>getZr().on\<close>, \<^verbatim>\<open>off\<close> and \<^verbatim>\<open>dispose\<close> (the ChartSurface adapter of the
  specification, section 4.2). The library is not code of the repository; this theory
  models the part of its behaviour the component relies on, as an explicit world:
  \<^item> the map registry of \<^verbatim>\<open>registerMap\<close>, which is global to the library
    (a module-level table, not a field of a chart instance);
  \<^item> the chart instance bound to the component's \<^verbatim>\<open>div\<close>, with its current
    option, the number of handlers attached to its \<^verbatim>\<open>click\<close> event and to the
    zrender \<^verbatim>\<open>click\<close> event, and whether it has been disposed;
  \<^item> the log of the calls the program issues, in order, which the specification's
    properties are stated over (section 8);
  \<^item> whether React holds the cleanup function of the effect.
  How \<^verbatim>\<open>setOption\<close> combines the new option with the current one is the
  \<open>merge_mode\<close> of the world: \<open>Replace\<close> is the specification's
  applyConfiguration ("replaces the entire current rendering configuration"),
  \<open>Merge\<close> is the library's default (\<^verbatim>\<open>notMerge\<close> unset), the deep merge
  \<open>jmerge\<close>. Every result about the component is proved for both.
\<close>

text \<open>The three boundary datasets the module loads (lines 8--10).\<close>

datatype dataset = ChinaJson | ZhejiangJson | JiangxiJson

datatype merge_mode = Replace | Merge

datatype call =
    Init
  | RegisterMap js_string dataset
  | SetOption jval
  | OnClick
  | ZrOnClick
  | OffClick
  | Dispose

record chart =
  ch_option :: jval
  ch_click :: nat
  ch_zr_click :: nat
  ch_disposed :: bool

record world =
  w_mode :: merge_mode
  w_maps :: "js_string \<rightharpoonup> dataset"
  w_chart :: "chart option"
  w_calls :: "call list"
  w_cleanup :: bool

definition init_world :: "merge_mode \<Rightarrow> world" where
  "init_world m = \<lparr>w_mode = m, w_maps = Map.empty, w_chart = None, w_calls = [], w_cleanup = False\<rparr>"

text \<open>The instance that receives events and calls: bound and not disposed.\<close>

definition live_chart :: "world \<Rightarrow> chart option" where
  "live_chart w = (case w_chart w of None \<Rightarrow> None | Some c \<Rightarrow> if ch_disposed c then None else Some c)"

definition log_call :: "call \<Rightarrow> world \<Rightarrow> world" where
  "log_call x w = w\<lparr>w_calls := w_calls w @ [x]\<rparr>"

definition on_live_chart :: "(chart \<Rightarrow> chart) \<Rightarrow> world \<Rightarrow> world" where
  "on_live_chart f w = (case live_chart w of None \<Rightarrow> w | Some c \<Rightarrow> w\<lparr>w_chart := Some (f c)\<rparr>)"

subsection \<open>The library calls\<close>

text \<open>\<^verbatim>\<open>init(dom)\<close>: a dom that already holds a live instance gets that instance
  back; otherwise a fresh instance with an empty option and no handlers.\<close>

definition chart_init :: "world \<Rightarrow> world" where
  "chart_init w = log_call Init
     (case live_chart w of
        Some c \<Rightarrow> w
      | None \<Rightarrow> w\<lparr>w_chart := Some \<lparr>ch_option = JObj [], ch_click = 0, ch_zr_click = 0,
                                      ch_disposed = False\<rparr>\<rparr>)"

text \<open>\<^verbatim>\<open>registerMap(name, json)\<close>: overwrites the registry entry.\<close>

definition register_map :: "js_string \<Rightarrow> dataset \<Rightarrow> world \<Rightarrow> world" where
  "register_map k d w = log_call (RegisterMap k d) (w\<lparr>w_maps := (w_maps w)(k \<mapsto> d)\<rparr>)"

fun apply_option :: "merge_mode \<Rightarrow> jval \<Rightarrow> jval \<Rightarrow> jval" where
  "apply_option Replace cur new = new"
| "apply_option Merge cur new = jmerge cur new"

text \<open>\<^verbatim>\<open>setOption(option)\<close>; on a disposed instance the library only warns.\<close>

definition chart_set_option :: "jval \<Rightarrow> world \<Rightarrow> world" where
  "chart_set_option opt w = log_call (SetOption opt)
     (on_live_chart (\<lambda>c. c\<lparr>ch_option := apply_option (w_mode w) (ch_option c) opt\<rparr>) w)"

definition chart_on_click :: "world \<Rightarrow> world" where
  "chart_on_click w = log_call OnClick (on_live_chart (\<lambda>c. c\<lparr>ch_click := Suc (ch_click c)\<rparr>) w)"

definition zr_on_click :: "world \<Rightarrow> world" where
  "zr_on_click w = log_call ZrOnClick (on_live_chart (\<lambda>c. c\<lparr>ch_zr_click := Suc (ch_zr_click c)\<rparr>) w)"

text \<open>\<^verbatim>\<open>off('click')\<close> removes every handler of the chart's click event.\<close>

definition chart_off_click :: "world \<Rightarrow> world" where
  "chart_off_click w = log_call OffClick (on_live_chart (\<lambda>c. c\<lparr>ch_click := 0\<rparr>) w)"

definition chart_dispose :: "world \<Rightarrow> world" where
  "chart_dispose w = log_call Dispose (on_live_chart (\<lambda>c. c\<lparr>ch_disposed := True\<rparr>) w)"

subsection \<open>Delivering a click\<close>

text \<open>
  A click on the canvas, on a rendered feature with a name (\<open>Some name\<close>) or on
  the background (\<open>None\<close>). zrender fires its \<^verbatim>\<open>click\<close> handlers for every
  click, target or not; echarts' own handler, which turns a click on a feature into
  the chart's \<^verbatim>\<open>click\<close> event, is registered with \<^verbatim>\<open>zrEventfulCallAtLast\<close>
  and so runs after every handler added through \<^verbatim>\<open>getZr().on\<close>. Each attached
  handler runs once, in turn; a disposed or absent instance delivers nothing. The
  handlers are the component's, so they are parameters here.
\<close>

definition deliver_click ::
  "(world \<Rightarrow> world) \<Rightarrow> (js_string \<Rightarrow> world \<Rightarrow> world) \<Rightarrow> js_string option \<Rightarrow> world \<Rightarrow> world" where
  "deliver_click zr_handler click_handler target w =
     (case live_chart w of
        None \<Rightarrow> w
      | Some c \<Rightarrow>
          (let w' = (zr_handler ^^ ch_zr_click c) w in
           case target of
             None \<Rightarrow> w'
           | Some name \<Rightarrow> (click_handler name ^^ ch_click c) w'))"

subsection \<open>Frame lemmas\<close>

named_theorems chart_simps "how each library call changes the world"

lemma log_call_simps [chart_simps]:
  "w_maps (log_call x w) = w_maps w" "w_chart (log_call x w) = w_chart w"
  "w_calls (log_call x w) = w_calls w @ [x]" "w_cleanup (log_call x w) = w_cleanup w"
  "w_mode (log_call x w) = w_mode w" "live_chart (log_call x w) = live_chart w"
  by (simp_all add: log_call_def live_chart_def)

lemma on_live_chart_simps [chart_simps]:
  "w_maps (on_live_chart f w) = w_maps w" "w_calls (on_live_chart f w) = w_calls w"
  "w_cleanup (on_live_chart f w) = w_cleanup w" "w_mode (on_live_chart f w) = w_mode w"
  by (simp_all add: on_live_chart_def split: option.splits)

lemma live_chart_on_live_chart [chart_simps]:
  "(\<And>c. ch_disposed (f c) = ch_disposed c) \<Longrightarrow>
   live_chart (on_live_chart f w) = map_option f (live_chart w)"
  by (auto simp: on_live_chart_def live_chart_def split: option.splits)

lemma register_map_simps [chart_simps]:
  "w_maps (register_map k d w) = (w_maps w)(k \<mapsto> d)"
  "w_calls (register_map k d w) = w_calls w @ [RegisterMap k d]"
  "w_cleanup (register_map k d w) = w_cleanup w" "w_mode (register_map k d w) = w_mode w"
  "live_chart (register_map k d w) = live_chart w"
  by (simp_all add: register_map_def chart_simps live_chart_def)

lemma chart_set_option_simps [chart_simps]:
  "w_maps (chart_set_option opt w) = w_maps w"
  "w_calls (chart_set_option opt w) = w_calls w @ [SetOption opt]"
  "w_cleanup (chart_set_option opt w) = w_cleanup w" "w_mode (chart_set_option opt w) = w_mode w"
  "live_chart (chart_set_option opt w) =
     map_option (\<lambda>c. c\<lparr>ch_option := apply_option (w_mode w) (ch_option c) opt\<rparr>) (live_chart w)"
  by (simp_all add: chart_set_option_def chart_simps)

lemma live_chart_cleanup_update [chart_simps]:
  "live_chart (w\<lparr>w_cleanup := b\<rparr>) = live_chart w"
  by (simp add: live_chart_def)

lemma chart_init_fresh [chart_simps]:
  "live_chart w = None \<Longrightarrow>
   live_chart (chart_init w) =
     Some \<lparr>ch_option = JObj [], ch_click = 0, ch_zr_click = 0, ch_disposed = False\<rparr>"
  "w_maps (chart_init w) = w_maps w" "w_calls (chart_init w) = w_calls w @ [Init]"
  "w_cleanup (chart_init w) = w_cleanup w" "w_mode (chart_init w) = w_mode w"
  by (simp_all add: chart_init_def chart_simps live_chart_def split: option.split)

lemma chart_handlers_simps [chart_simps]:
  "live_chart (chart_on_click w) = map_option (\<lambda>c. c\<lparr>ch_click := Suc (ch_click c)\<rparr>) (live_chart w)"
  "live_chart (zr_on_click w) = map_option (\<lambda>c. c\<lparr>ch_zr_click := Suc (ch_zr_click c)\<rparr>) (live_chart w)"
  "live_chart (chart_off_click w) = map_option (\<lambda>c. c\<lparr>ch_click := 0\<rparr>) (live_chart w)"
  "w_maps (chart_on_click w) = w_maps w" "w_maps (zr_on_click w) = w_maps w"
  "w_maps (chart_off_click w) = w_maps w" "w_maps (chart_dispose w) = w_maps w"
  "w_calls (chart_on_click w) = w_calls w @ [OnClick]" "w_calls (zr_on_click w) = w_calls w @ [ZrOnClick]"
  "w_calls (chart_off_click w) = w_calls w @ [OffClick]" "w_calls (chart_dispose w) = w_calls w @ [Dispose]"
  "w_mode (chart_on_click w) = w_mode w" "w_mode (zr_on_click w) = w_mode w"
  "w_cleanup (chart_on_click w) = w_cleanup w" "w_cleanup (zr_on_click w) = w_cleanup w"
  "w_mode (chart_off_click w) = w_mode w" "w_mode (chart_dispose w) = w_mode w"
  by (simp_all add: chart_on_click_def zr_on_click_def chart_off_click_def chart_dispose_def chart_simps)

lemma live_chart_dispose [chart_simps]: "live_chart (chart_dispose w) = None"
  by (auto simp: chart_dispose_def log_call_def on_live_chart_def live_chart_def split: option.splits)

subsection \<open>What setOption keeps\<close>

lemma apply_option_wf:
  "wf_json cur \<Longrightarrow> wf_json opt \<Longrightarrow> wf_json (apply_option m cur opt)"
  by (cases m) (simp_all add: jmerge_wf)

lemma apply_option_keeps_leaf:
  "wf_json opt \<Longrightarrow> jget opt p = Some v \<Longrightarrow> \<not> is_obj v \<Longrightarrow> jget (apply_option m cur opt) p = Some v"
  by (cases m) (simp_all add: jmerge_keeps_leaf)

end
