(* ===== verification/App.thy ===== *)
theory App
  imports Options Regions Chart
begin

text \<open>
  The component \<^verbatim>\<open>App\<close> of \<^verbatim>\<open>src/src/App.tsx\<close>: the two click handlers
  (lines 242--254 and 256--259), the body of the effect that creates the chart and
  subscribes them (lines 235--259) and the cleanup it returns (lines 260--263),
  composed as React and the library compose them: a commit runs the previous
  cleanup and then the effect (the effect has no dependency list, so it runs after
  every render), an unmount runs the cleanup, and a click is delivered by
  \<open>deliver_click\<close>. The reachable worlds are those produced by any sequence of
  these steps, from the initial world of either merge mode.
\<close>

abbreviation china_key :: js_string where
  "china_key \<equiv> js ''china''"

text \<open>\<^verbatim>\<open>myChart.on("click", function (params) { ... })\<close>, lines 242--254.\<close>

definition on_feature_click :: "js_string \<Rightarrow> world \<Rightarrow> world" where
  "on_feature_click name w =
     (if js_truthy (name_to_code_get name) then
        (if name \<noteq> jiangxi then w
         else chart_set_option jx_option (register_map name JiangxiJson w))
      else chart_set_option china_option (register_map china_key ChinaJson w))"

text \<open>\<^verbatim>\<open>myChart.getZr().on('click', () => { ... })\<close>, lines 256--259.\<close>

definition on_background_click :: "world \<Rightarrow> world" where
  "on_background_click w = chart_set_option china_option (register_map china_key ChinaJson w)"

text \<open>
  The effect, lines 235--259: when the ref holds the \<^verbatim>\<open>div\<close>, create the chart,
  register the national map, apply the national option, subscribe both handlers, and
  hand React the cleanup (line 260); otherwise do nothing and return no cleanup.
\<close>

definition mount_effect :: "bool \<Rightarrow> world \<Rightarrow> world" where
  "mount_effect ref_set w =
     (if ref_set then
        (zr_on_click (chart_on_click
           (chart_set_option china_option (register_map china_key ChinaJson (chart_init w)))))
          \<lparr>w_cleanup := True\<rparr>
      else w\<lparr>w_cleanup := False\<rparr>)"

text \<open>The cleanup, lines 260--263.\<close>

definition effect_cleanup :: "world \<Rightarrow> world" where
  "effect_cleanup w = (chart_dispose (chart_off_click w))\<lparr>w_cleanup := False\<rparr>"

subsection \<open>Composition by React and the library\<close>

definition react_unmount :: "world \<Rightarrow> world" where
  "react_unmount w = (if w_cleanup w then effect_cleanup w else w)"

definition react_commit :: "bool \<Rightarrow> world \<Rightarrow> world" where
  "react_commit ref_set w = mount_effect ref_set (react_unmount w)"

definition canvas_click :: "js_string option \<Rightarrow> world \<Rightarrow> world" where
  "canvas_click = deliver_click on_background_click on_feature_click"

inductive reachable :: "world \<Rightarrow> bool" where
  start: "reachable (init_world m)"
| commit: "reachable w \<Longrightarrow> reachable (react_commit r w)"
| unmount: "reachable w \<Longrightarrow> reachable (react_unmount w)"
| click: "reachable w \<Longrightarrow> reachable (canvas_click t w)"

subsection \<open>The view a chart shows\<close>

text \<open>
  The specification's ViewState: the national view, or one province by its code. The
  component keeps no such variable; the view is what its chart draws, read from the
  \<^verbatim>\<open>geo.map\<close> of the chart's current option.
\<close>

datatype view = National | Province int

definition view_of_option :: "jval \<Rightarrow> view option" where
  "view_of_option opt =
     (case jget opt geo_map_path of
        Some (JStr m) \<Rightarrow> if m = china_key then Some National else map_option Province (region_code m)
      | _ \<Rightarrow> None)"

definition view_of :: "world \<Rightarrow> view option" where
  "view_of w = Option.bind (live_chart w) (\<lambda>c. view_of_option (ch_option c))"

subsection \<open>The invariant of reachable worlds\<close>

text \<open>
  The option the program applied last, read from the call log; the invariant says that
  what a live chart shows is what the last \<^verbatim>\<open>setOption\<close> asked for (the
  specification's "a render command is issued synchronously with every state
  transition").
\<close>

fun last_set_option :: "call list \<Rightarrow> jval option" where
  "last_set_option [] = None"
| "last_set_option (SetOption opt # xs) = (case last_set_option xs of None \<Rightarrow> Some opt | r \<Rightarrow> r)"
| "last_set_option (_ # xs) = last_set_option xs"

definition chart_ok :: "world \<Rightarrow> chart \<Rightarrow> bool" where
  "chart_ok w c \<longleftrightarrow>
     ch_click c = 1 \<and> ch_zr_click c = 1 \<and> wf_json (ch_option c) \<and>
     w_maps w china_key = Some ChinaJson \<and>
     (jget (ch_option c) geo_map_path = Some (JStr china_key) \<or>
      jget (ch_option c) geo_map_path = Some (JStr jiangxi) \<and> w_maps w jiangxi = Some JiangxiJson) \<and>
     view_of_option (ch_option c) = Option.bind (last_set_option (w_calls w)) view_of_option"

definition app_inv :: "world \<Rightarrow> bool" where
  "app_inv w \<longleftrightarrow>
     (w_cleanup w \<longleftrightarrow> live_chart w \<noteq> None) \<and>
     (case live_chart w of None \<Rightarrow> True | Some c \<Rightarrow> chart_ok w c)"

text \<open>The two option applications of the handlers: register a map, then draw it.\<close>

definition shows_map :: "js_string \<Rightarrow> dataset \<Rightarrow> jval \<Rightarrow> bool" where
  "shows_map k d opt \<longleftrightarrow>
     (k, d, opt) = (china_key, ChinaJson, china_option) \<or> (k, d, opt) = (jiangxi, JiangxiJson, jx_option)"

abbreviation mounted_chart :: chart where
  "mounted_chart \<equiv> \<lparr>ch_option = china_option, ch_click = 1, ch_zr_click = 1, ch_disposed = False\<rparr>"

text \<open>No map is ever registered with the Zhejiang dataset, nor is such a call issued.\<close>

definition zhejiang_unused :: "world \<Rightarrow> bool" where
  "zhejiang_unused w \<longleftrightarrow>
     (\<forall>k. w_maps w k \<noteq> Some ZhejiangJson) \<and> (\<forall>k. RegisterMap k ZhejiangJson \<notin> set (w_calls w))"

text \<open>The world after the first commit of the component, in either merge mode.\<close>

abbreviation mounted_world :: "merge_mode \<Rightarrow> world" where
  "mounted_world m \<equiv> react_commit True (init_world m)"

subsection \<open>Proofs\<close>

lemma last_set_option_append [simp]:
  "last_set_option (xs @ ys) = (case last_set_option ys of None \<Rightarrow> last_set_option xs | r \<Rightarrow> r)"
  by (induction xs rule: last_set_option.induct) (auto split: option.splits)

lemma jiangxi_not_china_key [simp]: "jiangxi \<noteq> china_key" "china_key \<noteq> jiangxi"
  by (simp_all add: js_def)

lemma view_of_option_china: "view_of_option china_option = Some National"
  by (simp add: view_of_option_def china_option_geo_map)

lemma view_of_option_jx: "view_of_option jx_option = Some (Province 360000)"
  by (simp add: view_of_option_def jx_option_geo_map jiangxi_code)

lemma shows_map_facts:
  assumes "shows_map k d opt"
  shows "wf_json opt" and "jget opt geo_map_path = Some (JStr k)"
    and "k = china_key \<Longrightarrow> d = ChinaJson" and "k = jiangxi \<Longrightarrow> d = JiangxiJson"
    and "k = china_key \<or> k = jiangxi"
  using assms
  by (auto simp: shows_map_def china_option_wf jx_option_wf china_option_geo_map jx_option_geo_map)

lemma register_and_show:
  assumes live: "live_chart w = Some c" and ok: "chart_ok w c" and sm: "shows_map k d opt"
  defines "c' \<equiv> c\<lparr>ch_option := apply_option (w_mode w) (ch_option c) opt\<rparr>"
  shows "live_chart (chart_set_option opt (register_map k d w)) = Some c'"
    and "chart_ok (chart_set_option opt (register_map k d w)) c'"
    and "view_of_option (ch_option c') = view_of_option opt"
proof -
  show "live_chart (chart_set_option opt (register_map k d w)) = Some c'"
    using live by (simp add: chart_simps c'_def)
  have geo: "jget (ch_option c') geo_map_path = Some (JStr k)"
    unfolding c'_def using shows_map_facts(1,2) [OF sm]
    by (simp add: apply_option_keeps_leaf)
  then show view: "view_of_option (ch_option c') = view_of_option opt"
    using shows_map_facts(2) [OF sm] by (simp add: view_of_option_def)
  have wf: "wf_json (ch_option c')"
    using ok shows_map_facts(1) [OF sm] by (simp add: c'_def chart_ok_def apply_option_wf)
  have maps: "((w_maps w)(k \<mapsto> d)) china_key = Some ChinaJson"
    using ok shows_map_facts(3,5) [OF sm] by (auto simp: chart_ok_def)
  have drawn: "jget (ch_option c') geo_map_path = Some (JStr china_key) \<or>
      jget (ch_option c') geo_map_path = Some (JStr jiangxi) \<and> ((w_maps w)(k \<mapsto> d)) jiangxi = Some JiangxiJson"
    using geo shows_map_facts(4,5) [OF sm] by auto
  show "chart_ok (chart_set_option opt (register_map k d w)) c'"
    using ok wf maps drawn view by (simp add: chart_ok_def chart_simps c'_def)
qed

lemma on_feature_click_truthy_other:
  "js_truthy (name_to_code_get name) \<Longrightarrow> name \<noteq> jiangxi \<Longrightarrow> on_feature_click name w = w"
  by (simp add: on_feature_click_def)

lemma on_feature_click_jiangxi:
  "on_feature_click jiangxi w = chart_set_option jx_option (register_map jiangxi JiangxiJson w)"
  by (simp add: on_feature_click_def name_to_code_get_def jiangxi_code)

lemma on_feature_click_falsy:
  "\<not> js_truthy (name_to_code_get name) \<Longrightarrow> on_feature_click name w = on_background_click w"
  by (simp add: on_feature_click_def on_background_click_def)

lemma shows_map_china: "shows_map china_key ChinaJson china_option"
  and shows_map_jiangxi: "shows_map jiangxi JiangxiJson jx_option"
  by (simp_all add: shows_map_def)

text \<open>A click on a live chart whose handlers are each subscribed once.\<close>

lemma canvas_click_live:
  "live_chart w = Some c \<Longrightarrow> ch_zr_click c = 1 \<Longrightarrow> ch_click c = 1 \<Longrightarrow>
   canvas_click t w = (case t of None \<Rightarrow> on_background_click w
                       | Some name \<Rightarrow> on_feature_click name (on_background_click w))"
  by (simp add: canvas_click_def deliver_click_def split: option.split)

lemma canvas_click_dead:
  "live_chart w = None \<Longrightarrow> canvas_click t w = w"
  by (simp add: canvas_click_def deliver_click_def)

subsection \<open>The invariant\<close>

lemma app_inv_init: "app_inv (init_world m)"
  by (simp add: app_inv_def init_world_def live_chart_def)

lemma react_unmount_inv:
  assumes "app_inv w"
  shows "app_inv (react_unmount w)" and "live_chart (react_unmount w) = None"
    and "w_maps (react_unmount w) = w_maps w"
proof -
  have "live_chart (react_unmount w) = None \<and> \<not> w_cleanup (react_unmount w)"
    using assms by (auto simp: react_unmount_def effect_cleanup_def app_inv_def chart_simps)
  then show "app_inv (react_unmount w)" and "live_chart (react_unmount w) = None"
    by (simp_all add: app_inv_def)
  show "w_maps (react_unmount w) = w_maps w"
    by (simp add: react_unmount_def effect_cleanup_def chart_simps)
qed

lemma apply_option_fresh: "apply_option m (JObj []) china_option = china_option"
  by (cases m) (simp_all add: jmerge_into_empty china_option_wf)

lemma mount_effect_live:
  assumes "live_chart w = None"
  shows "live_chart (mount_effect True w) = Some mounted_chart"
    and "chart_ok (mount_effect True w) mounted_chart"
    and "w_cleanup (mount_effect True w)"
proof -
  show live: "live_chart (mount_effect True w) = Some mounted_chart"
    using assms by (simp add: mount_effect_def chart_simps apply_option_fresh)
  show "w_cleanup (mount_effect True w)"
    by (simp add: mount_effect_def)
  show "chart_ok (mount_effect True w) mounted_chart"
    by (simp add: chart_ok_def mount_effect_def chart_simps china_option_wf
        china_option_geo_map view_of_option_china)
qed

lemma mount_effect_inv:
  assumes "live_chart w = None"
  shows "app_inv (mount_effect r w)"
proof (cases r)
  case True
  with mount_effect_live [OF assms] show ?thesis
    by (simp add: app_inv_def)
next
  case False
  with assms show ?thesis
    by (simp add: app_inv_def mount_effect_def chart_simps)
qed

lemma react_commit_inv: "app_inv w \<Longrightarrow> app_inv (react_commit r w)"
  by (simp add: react_commit_def react_unmount_inv mount_effect_inv)

lemma on_background_click_ok:
  assumes "live_chart w = Some c" "chart_ok w c"
  obtains c' where "live_chart (on_background_click w) = Some c'"
    "chart_ok (on_background_click w) c'" "view_of_option (ch_option c') = Some National"
    "w_cleanup (on_background_click w) = w_cleanup w"
  using register_and_show [OF assms shows_map_china]
  by (simp add: on_background_click_def chart_simps view_of_option_china)

lemma on_feature_click_ok:
  assumes "live_chart w = Some c" "chart_ok w c"
  obtains c' where "live_chart (on_feature_click name w) = Some c'"
    "chart_ok (on_feature_click name w) c'"
    "view_of_option (ch_option c') =
       (if js_truthy (name_to_code_get name) \<and> name \<noteq> jiangxi then view_of_option (ch_option c)
        else if name = jiangxi then Some (Province 360000) else Some National)"
    "w_cleanup (on_feature_click name w) = w_cleanup w"
proof (cases "js_truthy (name_to_code_get name)")
  case True
  show ?thesis
  proof (cases "name = jiangxi")
    case True
    with register_and_show [OF assms shows_map_jiangxi] show ?thesis
      by (simp add: on_feature_click_jiangxi chart_simps view_of_option_jx that)
  next
    case False
    with \<open>js_truthy (name_to_code_get name)\<close> assms show ?thesis
      by (simp add: on_feature_click_truthy_other that)
  qed
next
  case False
  then have "name \<noteq> jiangxi"
    by (auto simp: name_to_code_get_def jiangxi_code)
  with False on_background_click_ok [OF assms] show ?thesis
    by (metis on_feature_click_falsy that)
qed

lemma canvas_click_inv: "app_inv w \<Longrightarrow> app_inv (canvas_click t w)"
proof (cases "live_chart w")
  case None
  then show "app_inv w \<Longrightarrow> app_inv (canvas_click t w)"
    by (simp add: canvas_click_dead)
next
  case (Some c)
  assume inv: "app_inv w"
  with Some have ok: "chart_ok w c" and cl: "w_cleanup w"
    by (simp_all add: app_inv_def)
  then have one: "ch_zr_click c = 1" "ch_click c = 1"
    by (simp_all add: chart_ok_def)
  obtain c1 where c1: "live_chart (on_background_click w) = Some c1"
    "chart_ok (on_background_click w) c1" "w_cleanup (on_background_click w) = w_cleanup w"
    using on_background_click_ok [OF Some ok] by blast
  show ?thesis
  proof (cases t)
    case None
    with Some one c1 cl show ?thesis
      by (simp add: canvas_click_live app_inv_def)
  next
    case (Some name)
    obtain c2 where "live_chart (on_feature_click name (on_background_click w)) = Some c2"
      "chart_ok (on_feature_click name (on_background_click w)) c2"
      "w_cleanup (on_feature_click name (on_background_click w)) = w_cleanup (on_background_click w)"
      using on_feature_click_ok [OF c1(1,2)] by blast
    with Some \<open>live_chart w = Some c\<close> one c1 cl show ?thesis
      by (simp add: canvas_click_live app_inv_def)
  qed
qed

lemma reachable_app_inv: "reachable w \<Longrightarrow> app_inv w"
  by (induction rule: reachable.induct)
    (simp_all add: app_inv_init react_commit_inv react_unmount_inv canvas_click_inv)



lemma view_of_live:
  "live_chart w = Some c \<Longrightarrow> view_of w = view_of_option (ch_option c)"
  by (simp add: view_of_def)

lemma view_of_Some_live:
  "view_of w = Some v \<Longrightarrow> \<exists>c. live_chart w = Some c"
  by (cases "live_chart w") (simp_all add: view_of_def)

lemma reachable_live_ok:
  "reachable w \<Longrightarrow> live_chart w = Some c \<Longrightarrow> chart_ok w c"
  using reachable_app_inv [of w] by (auto simp: app_inv_def)

lemma mounted_world_facts:
  "reachable (mounted_world m)" "live_chart (mounted_world m) = Some mounted_chart"
  "view_of (mounted_world m) = Some National" "w_mode (mounted_world m) = m"
proof -
  show "w_mode (mounted_world m) = m"
    by (simp add: react_commit_def react_unmount_def mount_effect_def chart_simps init_world_def)
  show r: "reachable (mounted_world m)"
    by (rule reachable.commit, rule reachable.start)
  have "live_chart (react_unmount (init_world m)) = None"
    by (rule react_unmount_inv(2), rule app_inv_init)
  then show live: "live_chart (mounted_world m) = Some mounted_chart"
    by (simp add: react_commit_def mount_effect_live)
  then show "view_of (mounted_world m) = Some National"
    by (simp add: view_of_def view_of_option_china)
qed

text \<open>The calls of one click on a live chart, by the branch the handlers take.\<close>

lemma background_calls:
  "w_calls (on_background_click w) = w_calls w @ [RegisterMap china_key ChinaJson, SetOption china_option]"
  by (simp add: on_background_click_def chart_simps)

lemma click_on_live:
  assumes "reachable w" "view_of w = Some v"
  obtains c where "live_chart w = Some c" "chart_ok w c"
    "canvas_click t w = (case t of None \<Rightarrow> on_background_click w
                         | Some name \<Rightarrow> on_feature_click name (on_background_click w))"
proof -
  obtain c where live: "live_chart w = Some c"
    using view_of_Some_live [OF assms(2)] by blast
  with assms(1) have ok: "chart_ok w c" by (rule reachable_live_ok)
  then have "ch_zr_click c = 1" "ch_click c = 1" by (simp_all add: chart_ok_def)
  with live ok show ?thesis
    using canvas_click_live that by blast
qed

lemma funpow_preserves:
  "(\<And>x. P x \<Longrightarrow> P (f x)) \<Longrightarrow> P x \<Longrightarrow> P ((f ^^ n) x)"
  by (induction n) simp_all

subsection \<open>Properties of the component\<close>

text \<open>
  C2. In every reachable world, a live chart shows the view that the last
  \<^verbatim>\<open>setOption\<close> call asked for, and that view is the national one or Jiangxi's:
  the view state and the rendering never disagree.
\<close>

theorem reachable_view_matches_last_render:
  assumes "reachable w" and "live_chart w = Some c"
  shows "view_of w = Option.bind (last_set_option (w_calls w)) view_of_option
         \<and> (view_of w = Some National \<or> view_of w = Some (Province 360000))"
proof -
  from assms have ok: "chart_ok w c" by (rule reachable_live_ok)
  then have "view_of_option (ch_option c) = Some National \<or>
             view_of_option (ch_option c) = Some (Province 360000)"
    by (auto simp: chart_ok_def view_of_option_def jiangxi_code)
  with ok assms(2) show ?thesis
    by (simp add: view_of_live chart_ok_def)
qed

theorem reachable_view_matches_last_render_witness:
  "reachable (mounted_world Merge) \<and> live_chart (mounted_world Merge) = Some mounted_chart \<and>
   view_of (mounted_world Merge) =
     Option.bind (last_set_option (w_calls (mounted_world Merge))) view_of_option"
  using reachable_view_matches_last_render [OF mounted_world_facts(1,2)] mounted_world_facts(1,2)
  by simp

text \<open>
  C3. In every reachable world a live chart has exactly one handler on its
  \<^verbatim>\<open>click\<close> event and one on zrender's: every click reaches each handler once,
  also after React has re-run the effect (each run disposes the chart of the last).
\<close>

theorem reachable_single_dispatch:
  "reachable w \<Longrightarrow> live_chart w = Some c \<Longrightarrow> ch_click c = 1 \<and> ch_zr_click c = 1"
  by (auto dest!: reachable_live_ok simp: chart_ok_def)

theorem reachable_single_dispatch_witness:
  "reachable (react_commit True (mounted_world Replace)) \<and>
   live_chart (react_commit True (mounted_world Replace)) = Some mounted_chart \<and>
   ch_click mounted_chart = 1 \<and> ch_zr_click mounted_chart = 1"
proof -
  have r: "reachable (react_commit True (mounted_world Replace))"
    by (rule reachable.commit, rule mounted_world_facts(1))
  have "live_chart (react_unmount (mounted_world Replace)) = None"
    by (rule react_unmount_inv(2), rule reachable_app_inv, rule mounted_world_facts(1))
  then have l: "live_chart (react_commit True (mounted_world Replace)) = Some mounted_chart"
    by (simp add: react_commit_def [of True "mounted_world Replace"] mount_effect_live)
  show ?thesis using reachable_single_dispatch [OF r l] r l by simp
qed

text \<open>
  C4. In every reachable world a live chart draws (through \<^verbatim>\<open>geo.map\<close>) a map
  that has been registered with \<^verbatim>\<open>registerMap\<close>.
\<close>

theorem reachable_draws_registered_map:
  assumes "reachable w" and "live_chart w = Some c"
  shows "\<exists>m d. jget (ch_option c) geo_map_path = Some (JStr m) \<and> w_maps w m = Some d"
  using reachable_live_ok [OF assms] by (auto simp: chart_ok_def)

theorem reachable_draws_registered_map_witness:
  "reachable (mounted_world Merge) \<and> live_chart (mounted_world Merge) = Some mounted_chart \<and>
   (\<exists>m d. jget china_option geo_map_path = Some (JStr m) \<and> w_maps (mounted_world Merge) m = Some d)"
  using reachable_draws_registered_map [OF mounted_world_facts(1,2)] mounted_world_facts(1,2)
  by simp

lemma shows_national_view:
  "jget opt geo_map_path = Some (JStr china_key) \<Longrightarrow> view_of_option opt = Some National"
  by (simp add: view_of_option_def)

lemma apply_option_china_same: "apply_option m china_option china_option = china_option"
  by (cases m) (simp_all add: jmerge_same china_option_wf)

text \<open>
  C5. Each commit of the component (the effect run after a render, following the
  cleanup of the previous run) leaves a fresh chart that shows the national option
  with one handler per channel, after issuing exactly the calls of lines 237--256.
\<close>

theorem commit_shows_national:
  assumes "reachable w"
  shows "live_chart (react_commit True w) = Some mounted_chart
    \<and> view_of (react_commit True w) = Some National
    \<and> w_calls (react_commit True w) =
        w_calls (react_unmount w) @
          [Init, RegisterMap china_key ChinaJson, SetOption china_option, OnClick, ZrOnClick]"
proof -
  have u: "live_chart (react_unmount w) = None"
    using assms by (intro react_unmount_inv(2) reachable_app_inv)
  then have "live_chart (react_commit True w) = Some mounted_chart"
    by (simp add: react_commit_def mount_effect_live)
  moreover have "w_calls (react_commit True w) = w_calls (react_unmount w) @
          [Init, RegisterMap china_key ChinaJson, SetOption china_option, OnClick, ZrOnClick]"
    by (simp add: react_commit_def mount_effect_def chart_simps)
  ultimately show ?thesis
    by (simp add: view_of_live view_of_option_china)
qed

theorem commit_shows_national_witness:
  "reachable (init_world Merge) \<and> view_of (react_commit True (init_world Merge)) = Some National"
  using commit_shows_national [OF reachable.start [of Merge]] reachable.start [of Merge] by simp

text \<open>
  C6. Clicking Jiangxi on the chart of a reachable world first resets to the national
  option (zrender handler) and then registers the Jiangxi map and applies
  \<^verbatim>\<open>jxOption\<close> (chart handler): the chart ends in the Jiangxi view, code 360000,
  after exactly these four calls in this order.
\<close>

theorem drill_down_click:
  assumes "reachable w" and "view_of w = Some v"
  shows "view_of (canvas_click (Some jiangxi) w) = Some (Province 360000)
    \<and> w_calls (canvas_click (Some jiangxi) w) = w_calls w @
        [RegisterMap china_key ChinaJson, SetOption china_option,
         RegisterMap jiangxi JiangxiJson, SetOption jx_option]"
proof -
  obtain c where live: "live_chart w = Some c" and ok: "chart_ok w c"
    and step: "canvas_click (Some jiangxi) w = on_feature_click jiangxi (on_background_click w)"
    using click_on_live [OF assms, of "Some jiangxi"] by auto
  obtain c1 where c1: "live_chart (on_background_click w) = Some c1"
    "chart_ok (on_background_click w) c1"
    using on_background_click_ok [OF live ok] by blast
  have "view_of (canvas_click (Some jiangxi) w) = Some (Province 360000)"
    using register_and_show [OF c1 shows_map_jiangxi]
    by (simp add: step on_feature_click_jiangxi view_of_live view_of_option_jx)
  moreover have "w_calls (canvas_click (Some jiangxi) w) = w_calls w @
        [RegisterMap china_key ChinaJson, SetOption china_option,
         RegisterMap jiangxi JiangxiJson, SetOption jx_option]"
    by (simp add: step on_feature_click_jiangxi background_calls chart_simps)
  ultimately show ?thesis ..
qed

theorem drill_down_click_witness:
  "reachable (mounted_world Replace) \<and> view_of (mounted_world Replace) = Some National \<and>
   view_of (canvas_click (Some jiangxi) (mounted_world Replace)) = Some (Province 360000)"
  using drill_down_click [OF mounted_world_facts(1,3)] mounted_world_facts(1,3) by simp

text \<open>
  C7. Clicking a feature whose name is in \<^verbatim>\<open>nameToCode\<close> but is not Jiangxi
  leaves the chart in the national view, whatever it showed before; the chart handler
  returns early (line 245) and issues no call, so only the reset of the zrender
  handler is issued.
\<close>

theorem known_province_click_resets:
  assumes "reachable w" and "view_of w = Some v"
    and "region_code name \<noteq> None" and "name \<noteq> jiangxi"
  shows "view_of (canvas_click (Some name) w) = Some National
    \<and> w_calls (canvas_click (Some name) w) = w_calls w @
        [RegisterMap china_key ChinaJson, SetOption china_option]"
proof -
  obtain c where live: "live_chart w = Some c" and ok: "chart_ok w c"
    and step: "canvas_click (Some name) w = on_feature_click name (on_background_click w)"
    using click_on_live [OF assms(1,2), of "Some name"] by auto
  have "js_truthy (name_to_code_get name)"
    using assms(3) by (rule region_code_truthy)
  with assms(4) have same: "canvas_click (Some name) w = on_background_click w"
    by (simp add: step on_feature_click_truthy_other)
  obtain c1 where "live_chart (on_background_click w) = Some c1"
    "view_of_option (ch_option c1) = Some National"
    using on_background_click_ok [OF live ok] by blast
  then show ?thesis
    by (simp add: same view_of_live background_calls)
qed

theorem known_province_click_resets_witness:
  "reachable (mounted_world Merge) \<and> view_of (mounted_world Merge) = Some National \<and>
   region_code [0x5B89, 0x5FBD, 0x7701] \<noteq> None \<and> [0x5B89, 0x5FBD, 0x7701] \<noteq> jiangxi \<and>
   view_of (canvas_click (Some [0x5B89, 0x5FBD, 0x7701]) (mounted_world Merge)) = Some National"
proof -
  have known: "region_code [0x5B89, 0x5FBD, 0x7701] \<noteq> None"
    by (simp add: name_to_code_def)
  have other: "[0x5B89, 0x5FBD, 0x7701] \<noteq> jiangxi"
    by simp
  show ?thesis
    using known_province_click_resets [OF mounted_world_facts(1,3) known other]
      mounted_world_facts(1,3) known other by simp
qed

text \<open>
  C8. Clicking a feature whose name is neither a key of \<^verbatim>\<open>nameToCode\<close> nor a
  property inherited from \<^verbatim>\<open>Object.prototype\<close> resets to the national view from
  any view: both handlers re-register the national map and re-apply the national
  option.
\<close>

theorem unknown_name_click_resets:
  assumes "reachable w" and "view_of w = Some v"
    and "region_code name = None" and "name \<notin> set object_prototype_keys"
  shows "view_of (canvas_click (Some name) w) = Some National
    \<and> w_calls (canvas_click (Some name) w) = w_calls w @
        [RegisterMap china_key ChinaJson, SetOption china_option,
         RegisterMap china_key ChinaJson, SetOption china_option]"
proof -
  obtain c where live: "live_chart w = Some c" and ok: "chart_ok w c"
    and step: "canvas_click (Some name) w = on_feature_click name (on_background_click w)"
    using click_on_live [OF assms(1,2), of "Some name"] by auto
  have "\<not> js_truthy (name_to_code_get name)"
    using assms(3,4) by (simp add: name_to_code_get_def)
  then have twice: "canvas_click (Some name) w = on_background_click (on_background_click w)"
    by (simp add: step on_feature_click_falsy)
  obtain c1 where c1: "live_chart (on_background_click w) = Some c1"
    "chart_ok (on_background_click w) c1"
    using on_background_click_ok [OF live ok] by blast
  obtain c2 where "live_chart (on_background_click (on_background_click w)) = Some c2"
    "view_of_option (ch_option c2) = Some National"
    using on_background_click_ok [OF c1] by blast
  then show ?thesis
    by (simp add: twice view_of_live background_calls)
qed

theorem unknown_name_click_resets_witness:
  "reachable (mounted_world Merge) \<and> view_of (mounted_world Merge) = Some National \<and>
   region_code (js ''nowhere'') = None \<and> js ''nowhere'' \<notin> set object_prototype_keys \<and>
   view_of (canvas_click (Some (js ''nowhere'')) (mounted_world Merge)) = Some National"
proof -
  have unknown: "region_code (js ''nowhere'') = None"
    by (simp add: name_to_code_def js_def)
  have own: "js ''nowhere'' \<notin> set object_prototype_keys"
    by (simp add: object_prototype_keys_def)
  show ?thesis
    using unknown_name_click_resets [OF mounted_world_facts(1,3) unknown own]
      mounted_world_facts(1,3) unknown own by simp
qed

text \<open>
  C9. A click on the background re-registers the national map and re-applies the
  national option even when the chart already shows it: the two calls are issued,
  and the chart and the map registry end exactly as they were, under either
  semantics of \<^verbatim>\<open>setOption\<close>.
\<close>

theorem background_click_unconditional:
  assumes "reachable w" and "live_chart w = Some c" and "ch_option c = china_option"
  shows "live_chart (canvas_click None w) = Some c
    \<and> w_maps (canvas_click None w) = w_maps w
    \<and> w_calls (canvas_click None w) = w_calls w @ [RegisterMap china_key ChinaJson, SetOption china_option]"
proof -
  have ok: "chart_ok w c" using assms(1,2) by (rule reachable_live_ok)
  then have "ch_zr_click c = 1" "ch_click c = 1" by (simp_all add: chart_ok_def)
  with assms(2) have step: "canvas_click None w = on_background_click w"
    by (simp add: canvas_click_live)
  have "(w_maps w)(china_key \<mapsto> ChinaJson) = w_maps w"
    using ok by (simp add: chart_ok_def fun_upd_idem)
  with assms(2,3) show ?thesis
    by (simp add: step on_background_click_def chart_simps apply_option_china_same)
qed

theorem background_click_unconditional_witness:
  "reachable (mounted_world Merge) \<and> live_chart (mounted_world Merge) = Some mounted_chart \<and>
   live_chart (canvas_click None (mounted_world Merge)) = Some mounted_chart"
  using background_click_unconditional [OF mounted_world_facts(1,2)] mounted_world_facts(1,2)
  by simp

text \<open>How a click changes the option of a live chart, and what it leaves alone.\<close>

lemma handlers_keep_mode:
  "w_mode (on_background_click w) = w_mode w" "w_mode (on_feature_click name w) = w_mode w"
  by (simp_all add: on_background_click_def on_feature_click_def chart_simps)

lemma canvas_click_mode: "w_mode (canvas_click t w) = w_mode w"
proof -
  have bg: "w_mode ((on_background_click ^^ n) w) = w_mode w" for n w
    by (induction n) (simp_all add: handlers_keep_mode)
  have fc: "w_mode ((on_feature_click name ^^ n) w) = w_mode w" for n name w
    by (induction n) (simp_all add: handlers_keep_mode)
  show ?thesis
    by (simp add: canvas_click_def deliver_click_def Let_def bg fc split: option.split)
qed

lemma background_click_option:
  assumes "reachable w" and "live_chart w = Some c"
  shows "live_chart (canvas_click None w) =
           Some (c\<lparr>ch_option := apply_option (w_mode w) (ch_option c) china_option\<rparr>)"
proof -
  have "chart_ok w c" using assms by (rule reachable_live_ok)
  then have "ch_zr_click c = 1" "ch_click c = 1" by (simp_all add: chart_ok_def)
  with assms(2) show ?thesis
    by (simp add: canvas_click_live on_background_click_def chart_simps)
qed

lemma drill_click_option:
  assumes "reachable w" and "live_chart w = Some c"
  shows "live_chart (canvas_click (Some jiangxi) w) =
           Some (c\<lparr>ch_option := apply_option (w_mode w)
                   (apply_option (w_mode w) (ch_option c) china_option) jx_option\<rparr>)"
proof -
  have "chart_ok w c" using assms by (rule reachable_live_ok)
  then have "ch_zr_click c = 1" "ch_click c = 1" by (simp_all add: chart_ok_def)
  with assms(2) show ?thesis
    by (simp add: canvas_click_live on_background_click_def on_feature_click_jiangxi chart_simps)
qed

text \<open>
  C12. Every unmount of a reachable world leaves no live chart (the cleanup disposes
  it), and from then on any sequence of clicks changes nothing: no handler runs and
  no call is issued.
\<close>

theorem unmount_releases_chart:
  assumes "reachable w"
  shows "live_chart (react_unmount w) = None \<and> fold canvas_click ts (react_unmount w) = react_unmount w"
proof -
  have none: "live_chart (react_unmount w) = None"
    using assms by (intro react_unmount_inv(2) reachable_app_inv)
  have "live_chart u = None \<Longrightarrow> fold canvas_click ts u = u" for u
    by (induction ts) (simp_all add: canvas_click_dead)
  with none show ?thesis by simp
qed

theorem unmount_releases_chart_witness:
  "reachable (mounted_world Merge) \<and>
   fold canvas_click [Some jiangxi, None] (react_unmount (mounted_world Merge)) =
     react_unmount (mounted_world Merge)"
  using unmount_releases_chart [OF mounted_world_facts(1), where ts = "[Some jiangxi, None]"]
    mounted_world_facts(1) by simp

text \<open>
  C14. A feature whose name is a property inherited from \<^verbatim>\<open>Object.prototype\<close>
  (\<^verbatim>\<open>toString\<close>, \<^verbatim>\<open>constructor\<close>, \<dots>) is classified as a known region by
  the truthiness test of line 243, so the chart's click handler returns early and
  changes nothing, although the name is not in the region index.
\<close>

theorem inherited_name_click_noop:
  assumes "name \<in> set object_prototype_keys"
  shows "on_feature_click name w = w"
proof -
  have none: "region_code name = None"
    using assms by (rule object_prototype_keys_not_regions)
  then have "js_truthy (name_to_code_get name)"
    using assms by (simp add: name_to_code_get_def)
  moreover have "name \<noteq> jiangxi"
    using none jiangxi_code by auto
  ultimately show ?thesis
    by (rule on_feature_click_truthy_other)
qed

theorem inherited_name_click_noop_witness:
  "js ''toString'' \<in> set object_prototype_keys \<and>
   on_feature_click (js ''toString'') (mounted_world Merge) = mounted_world Merge"
proof -
  have k: "js ''toString'' \<in> set object_prototype_keys"
    by (simp add: object_prototype_keys_def)
  show ?thesis using inherited_name_click_noop [OF k] k by simp
qed

subsection \<open>The Zhejiang dataset\<close>

lemma zhejiang_unused_calls:
  "zhejiang_unused w \<Longrightarrow> d \<noteq> ZhejiangJson \<Longrightarrow> zhejiang_unused (register_map k d w)"
  "zhejiang_unused w \<Longrightarrow> zhejiang_unused (chart_set_option opt w)"
  "zhejiang_unused w \<Longrightarrow> zhejiang_unused (chart_init w)"
  "zhejiang_unused w \<Longrightarrow> zhejiang_unused (chart_on_click w)"
  "zhejiang_unused w \<Longrightarrow> zhejiang_unused (zr_on_click w)"
  "zhejiang_unused w \<Longrightarrow> zhejiang_unused (chart_off_click w)"
  "zhejiang_unused w \<Longrightarrow> zhejiang_unused (chart_dispose w)"
  "zhejiang_unused w \<Longrightarrow> zhejiang_unused (w\<lparr>w_cleanup := b\<rparr>)"
  by (simp_all add: zhejiang_unused_def chart_simps)

lemma zhejiang_unused_handlers:
  "zhejiang_unused w \<Longrightarrow> zhejiang_unused (on_background_click w)"
  "zhejiang_unused w \<Longrightarrow> zhejiang_unused (on_feature_click name w)"
  by (simp_all add: on_background_click_def on_feature_click_def zhejiang_unused_calls)

lemma zhejiang_unused_steps:
  "zhejiang_unused w \<Longrightarrow> zhejiang_unused (react_unmount w)"
  "zhejiang_unused w \<Longrightarrow> zhejiang_unused (react_commit r w)"
  "zhejiang_unused w \<Longrightarrow> zhejiang_unused (canvas_click t w)"
proof -
  show u: "zhejiang_unused w \<Longrightarrow> zhejiang_unused (react_unmount w)" for w
    by (simp add: react_unmount_def effect_cleanup_def zhejiang_unused_calls)
  show "zhejiang_unused w \<Longrightarrow> zhejiang_unused (react_commit r w)"
    by (drule u) (simp add: react_commit_def mount_effect_def zhejiang_unused_calls)
  show "zhejiang_unused w \<Longrightarrow> zhejiang_unused (canvas_click t w)"
    by (auto simp: canvas_click_def deliver_click_def Let_def zhejiang_unused_handlers
        intro!: funpow_preserves [where P = zhejiang_unused] split: option.split)
qed

text \<open>
  C16. The Zhejiang boundary data that line 9 loads is never registered and no call
  registers it: in every reachable world no map name is bound to it.
\<close>

theorem zhejiang_never_registered:
  assumes "reachable w"
  shows "w_maps w k \<noteq> Some ZhejiangJson \<and> RegisterMap k ZhejiangJson \<notin> set (w_calls w)"
proof -
  have "zhejiang_unused w"
    using assms
    by (induction rule: reachable.induct)
      (simp_all add: zhejiang_unused_steps, simp add: zhejiang_unused_def init_world_def)
  then show ?thesis by (simp add: zhejiang_unused_def)
qed

theorem zhejiang_never_registered_witness:
  "reachable (mounted_world Merge) \<and> w_maps (mounted_world Merge) (js ''zhejiang'') \<noteq> Some ZhejiangJson"
  using zhejiang_never_registered [OF mounted_world_facts(1)] mounted_world_facts(1) by simp

subsection \<open>A commit without the element\<close>

text \<open>
  C17. When React commits while the ref holds no element, the effect's guard
  (line 236) skips everything: the chart of the previous run has been released by its
  cleanup, no chart is live, no call beyond that cleanup's is issued, and React holds
  no cleanup.
\<close>

theorem commit_without_ref_releases:
  assumes "reachable w"
  shows "live_chart (react_commit False w) = None \<and> \<not> w_cleanup (react_commit False w)
    \<and> w_calls (react_commit False w) = w_calls (react_unmount w)"
proof -
  have "live_chart (react_unmount w) = None"
    using assms by (intro react_unmount_inv(2) reachable_app_inv)
  then show ?thesis
    by (simp add: react_commit_def mount_effect_def chart_simps)
qed

theorem commit_without_ref_releases_witness:
  "reachable (mounted_world Replace) \<and> live_chart (react_commit False (mounted_world Replace)) = None"
  using commit_without_ref_releases [OF mounted_world_facts(1)] mounted_world_facts(1) by simp

end
