(* ===== verification/Lifecycle.thy ===== *)
theory Lifecycle
  imports App
begin

text \<open>
  The component over its whole life. The specification's view-state machine
  (section 4.1) and an abstract lifecycle built on it: the component is unmounted or
  shows a view; a commit with the element mounts it in the national view, a commit
  without the element and an unmount leave it unmounted, and a click on a mounted
  component is a background reset followed by the dispatch of the click. The events
  React and the user produce (\<open>app_event\<close>) are run by \<open>app_step\<close>, which
  applies \<open>react_commit\<close>, \<open>react_unmount\<close> or \<open>canvas_click\<close> of
  \<open>App\<close>; \<open>run\<close> runs a sequence of them. The lemmas relate the inductive
  reachability of \<open>App\<close> to runs, and every run to the abstract lifecycle.
\<close>

section \<open>The specification's view-state machine\<close>

text \<open>
  Section 4.1 of the specification: \<open>onFeatureClicked(name)\<close> resets to the national
  view when the name is not in the RegionNameIndex, does nothing for a known name that
  is not the one drill-down target, and drills into the target; \<open>onBackgroundClicked\<close>
  always resets. A click on a feature dispatches the first, a click on the background
  the second.
\<close>

definition spec_feature :: "view \<Rightarrow> js_string \<Rightarrow> view" where
  "spec_feature v name =
     (case region_code name of
        None \<Rightarrow> National
      | Some code \<Rightarrow> if name = jiangxi then Province code else v)"

definition spec_background :: "view \<Rightarrow> view" where
  "spec_background v = National"

fun spec_dispatch :: "view \<Rightarrow> js_string option \<Rightarrow> view" where
  "spec_dispatch v None = spec_background v"
| "spec_dispatch v (Some name) = spec_feature v name"

section \<open>Events of the component's life\<close>

text \<open>
  What can happen to the component: React commits a render (with the element in the
  ref or not), React unmounts it, or the user clicks the canvas (on a feature, by its
  name, or on the background).
\<close>

datatype app_event = Commit bool | Unmount | Click "js_string option"

fun app_step :: "world \<Rightarrow> app_event \<Rightarrow> world" where
  "app_step w (Commit r) = react_commit r w"
| "app_step w Unmount = react_unmount w"
| "app_step w (Click t) = canvas_click t w"

definition run :: "app_event list \<Rightarrow> world \<Rightarrow> world" where
  "run evs w = foldl app_step w evs"

text \<open>
  The abstract lifecycle: unmounted, or mounted and showing a view. A commit with the
  element initializes the chart in the national view (section 4.1, \<open>initialize\<close>);
  unmounting disposes it (section 5); clicks on an unmounted component do nothing.
\<close>

datatype life = Unmounted | Showing view

fun spec_life :: "life \<Rightarrow> app_event \<Rightarrow> life" where
  "spec_life l (Commit r) = (if r then Showing National else Unmounted)"
| "spec_life l Unmount = Unmounted"
| "spec_life Unmounted (Click t) = Unmounted"
| "spec_life (Showing v) (Click t) = Showing (spec_dispatch (spec_background v) t)"

definition life_of :: "world \<Rightarrow> life" where
  "life_of w = (case view_of w of None \<Rightarrow> Unmounted | Some v \<Rightarrow> Showing v)"

section \<open>Refinement of a single click\<close>

lemma spec_feature_National:
  "spec_feature National name = (if name = jiangxi then Province 360000 else National)"
  by (auto simp: spec_feature_def jiangxi_code split: option.split)

lemma click_view_step:
  assumes "reachable w" and "view_of w = Some v"
  shows "view_of (canvas_click t w) = Some (spec_dispatch (spec_background v) t)"
proof -
  obtain c where live: "live_chart w = Some c" and ok: "chart_ok w c"
    and step: "canvas_click t w = (case t of None \<Rightarrow> on_background_click w
                  | Some name \<Rightarrow> on_feature_click name (on_background_click w))"
    using click_on_live [OF assms] by blast
  obtain c1 where c1: "live_chart (on_background_click w) = Some c1"
    "chart_ok (on_background_click w) c1" "view_of_option (ch_option c1) = Some National"
    using on_background_click_ok [OF live ok] by blast
  show ?thesis
  proof (cases t)
    case None
    with step c1 show ?thesis
      by (simp add: view_of_live spec_background_def)
  next
    case (Some name)
    obtain c2 where "live_chart (on_feature_click name (on_background_click w)) = Some c2"
      "view_of_option (ch_option c2) =
         (if js_truthy (name_to_code_get name) \<and> name \<noteq> jiangxi then view_of_option (ch_option c1)
          else if name = jiangxi then Some (Province 360000) else Some National)"
      using on_feature_click_ok [OF c1(1,2)] by blast
    with Some step c1(3) show ?thesis
      by (auto simp: view_of_live spec_background_def spec_feature_National)
  qed
qed

section \<open>Runs\<close>

lemma run_Nil [simp]: "run [] w = w"
  by (simp add: run_def)

lemma run_Cons [simp]: "run (e # evs) w = run evs (app_step w e)"
  by (simp add: run_def)

lemma run_append: "run (evs @ evs') w = run evs' (run evs w)"
  by (simp add: run_def)

lemma reachable_step: "reachable w \<Longrightarrow> reachable (app_step w e)"
  by (cases e) (simp_all add: reachable.intros)

lemma reachable_run: "reachable w \<Longrightarrow> reachable (run evs w)"
  by (induction evs arbitrary: w) (simp_all add: reachable_step)

lemma reachable_live_view:
  assumes "reachable w" and "live_chart w = Some c"
  shows "view_of w = Some National \<or> view_of w = Some (Province 360000)"
proof -
  from assms have "chart_ok w c" by (rule reachable_live_ok)
  then have "view_of_option (ch_option c) = Some National \<or>
             view_of_option (ch_option c) = Some (Province 360000)"
    by (auto simp: chart_ok_def view_of_option_def jiangxi_code)
  with assms(2) show ?thesis
    by (simp add: view_of_live)
qed

lemma life_of_dead: "live_chart w = None \<Longrightarrow> life_of w = Unmounted"
  by (simp add: life_of_def view_of_def)

lemma commit_view:
  assumes "reachable w"
  shows "view_of (react_commit True w) = Some National"
    and "live_chart (react_commit False w) = None"
proof -
  have u: "live_chart (react_unmount w) = None"
    using assms by (intro react_unmount_inv(2) reachable_app_inv)
  then show "view_of (react_commit True w) = Some National"
    by (simp add: react_commit_def mount_effect_live view_of_live view_of_option_china)
  from u show "live_chart (react_commit False w) = None"
    by (simp add: react_commit_def mount_effect_def chart_simps)
qed

lemma life_step:
  assumes "reachable w"
  shows "life_of (app_step w e) = spec_life (life_of w) e"
proof (cases e)
  case (Commit r)
  with commit_view [OF assms] show ?thesis
    by (cases r) (simp_all add: life_of_def view_of_def)
next
  case Unmount
  have "live_chart (react_unmount w) = None"
    using assms by (intro react_unmount_inv(2) reachable_app_inv)
  with Unmount show ?thesis by (simp add: life_of_dead)
next
  case (Click t)
  show ?thesis
  proof (cases "view_of w")
    case None
    then have "live_chart w = None"
      using reachable_live_view [OF assms] by (cases "live_chart w") auto
    with Click None show ?thesis
      by (simp add: canvas_click_dead life_of_def)
  next
    case (Some v)
    with Click click_view_step [OF assms Some] show ?thesis
      by (simp add: life_of_def)
  qed
qed

lemma drill_run:
  assumes "reachable w"
  shows "view_of (run [Commit True] w) = Some National"
    and "view_of (run [Commit True, Click (Some jiangxi)] w) = Some (Province 360000)"
proof -
  have r: "reachable (react_commit True w)"
    using assms by (rule reachable.commit)
  have n: "view_of (react_commit True w) = Some National"
    using assms by (rule commit_view(1))
  then show "view_of (run [Commit True] w) = Some National"
    by simp
  have "view_of (canvas_click (Some jiangxi) (react_commit True w)) = Some (Province 360000)"
    using click_view_step [OF r n, of "Some jiangxi"]
    by (simp add: spec_background_def spec_feature_National)
  then show "view_of (run [Commit True, Click (Some jiangxi)] w) = Some (Province 360000)"
    by simp
qed

section \<open>Properties of the component's life\<close>

text \<open>
  C18. From any reachable world, along any interleaving of commits, unmounts and
  clicks, the component is unmounted exactly when the abstract lifecycle is, and
  otherwise shows the view the abstract lifecycle is in: the component refines the
  specification's lifecycle and view-state machine over every trace.
\<close>

theorem lifecycle_refines_spec:
  assumes "reachable w"
  shows "life_of (run evs w) = foldl spec_life (life_of w) evs"
  using assms
proof (induction evs arbitrary: w)
  case Nil
  then show ?case by simp
next
  case (Cons e evs)
  have "reachable (app_step w e)"
    using Cons.prems by (rule reachable_step)
  then have "life_of (run evs (app_step w e)) = foldl spec_life (life_of (app_step w e)) evs"
    by (rule Cons.IH)
  with life_step [OF Cons.prems, of e] show ?case
    by simp
qed

theorem lifecycle_refines_spec_witness:
  "reachable (init_world Merge) \<and>
   life_of (run [Commit True, Click (Some jiangxi), Unmount, Commit True, Click None]
                (init_world Merge)) = Showing National"
proof -
  have "life_of (init_world Merge) = Unmounted"
    by (simp add: life_of_dead init_world_def live_chart_def)
  with lifecycle_refines_spec [OF reachable.start [of Merge],
      of "[Commit True, Click (Some jiangxi), Unmount, Commit True, Click None]"]
  show ?thesis
    by (simp add: reachable.start spec_background_def)
qed

text \<open>
  The inductive reachability of the component's worlds and the executable runs
  of its events agree: a world is reachable exactly when some sequence of events
  produces it from the initial world of one of the two merge modes.
\<close>

lemma reachable_iff_run:
  "reachable w \<longleftrightarrow> (\<exists>m evs. w = run evs (init_world m))"
proof
  assume "reachable w"
  then show "\<exists>m evs. w = run evs (init_world m)"
  proof (induction rule: reachable.induct)
    case (start m)
    show ?case by (rule exI [of _ m], rule exI [of _ "[]"]) simp
  next
    case (commit w r)
    then obtain m evs where "w = run evs (init_world m)" by blast
    then have "react_commit r w = run (evs @ [Commit r]) (init_world m)"
      by (simp add: run_append)
    then show ?case by blast
  next
    case (unmount w)
    then obtain m evs where "w = run evs (init_world m)" by blast
    then have "react_unmount w = run (evs @ [Unmount]) (init_world m)"
      by (simp add: run_append)
    then show ?case by blast
  next
    case (click w t)
    then obtain m evs where "w = run evs (init_world m)" by blast
    then have "canvas_click t w = run (evs @ [Click t]) (init_world m)"
      by (simp add: run_append)
    then show ?case by blast
  qed
next
  assume "\<exists>m evs. w = run evs (init_world m)"
  then show "reachable w"
    using reachable_run reachable.start by blast
qed

text \<open>
  C19. From every reachable world, the views that can be brought onto the screen
  within two events are exactly the national view and Jiangxi's: the national view by
  a commit, Jiangxi's by a commit and a click on Jiangxi; no other view is ever shown.
\<close>

theorem reachable_views:
  assumes "reachable w"
  shows "(\<exists>evs. length evs \<le> 2 \<and> view_of (run evs w) = Some v) \<longleftrightarrow>
         v = National \<or> v = Province 360000"
proof
  assume "\<exists>evs. length evs \<le> 2 \<and> view_of (run evs w) = Some v"
  then obtain evs where v: "view_of (run evs w) = Some v" by blast
  obtain c where "live_chart (run evs w) = Some c"
    using view_of_Some_live [OF v] by blast
  then have "view_of (run evs w) = Some National \<or> view_of (run evs w) = Some (Province 360000)"
    by (rule reachable_live_view [OF reachable_run [OF assms]])
  with v show "v = National \<or> v = Province 360000"
    by simp
next
  note n1 = drill_run(1) [OF assms] and j = drill_run(2) [OF assms]
  assume "v = National \<or> v = Province 360000"
  then show "\<exists>evs. length evs \<le> 2 \<and> view_of (run evs w) = Some v"
  proof
    assume "v = National"
    with n1 show ?thesis by (intro exI [of _ "[Commit True]"]) simp
  next
    assume "v = Province 360000"
    with j show ?thesis by (intro exI [of _ "[Commit True, Click (Some jiangxi)]"]) simp
  qed
qed

theorem reachable_views_witness:
  "reachable (init_world Merge) \<and>
   (\<exists>evs. length evs \<le> 2 \<and> view_of (run evs (init_world Merge)) = Some (Province 360000))"
  using reachable_views [OF reachable.start [of Merge], of "Province 360000"] reachable.start
  by simp

end
