(* ===== verification/Errors.thy ===== *)
theory Errors
  imports Lifecycle
begin

text \<open>
  The exception paths of \<^verbatim>\<open>App.tsx\<close>. The specification's adapter may fail when
  the engine rejects a boundary dataset (section 4.2, \<^verbatim>\<open>registerBoundary\<close>), and
  the failure propagates to the caller without local recovery (section 7). The source
  has no \<^verbatim>\<open>try\<close>: an exception of \<^verbatim>\<open>registerMap\<close> leaves the effect or
  the handler at once, with every call made before it in force. A call's outcome is
  therefore a sum: \<open>Inr w\<close>, it returned leaving the world \<open>w\<close>, or
  \<open>Inl (e, w)\<close>, it threw \<open>e\<close> leaving \<open>w\<close> (the abrupt completion of a
  statement keeps the store). \<open>ex_bind\<close> runs the rest of a body only after a return.
  Which datasets the engine rejects is the parameter \<open>bad\<close>.

  zrender runs the handlers of an event in a loop without \<^verbatim>\<open>try\<close>, so an
  exception of one handler also skips the handlers after it, among them echarts'
  dispatcher of the chart's \<^verbatim>\<open>click\<close> event (\<open>deliver_click_ex\<close>). React, when
  an effect throws, keeps no cleanup for it (\<open>react_commit_ex\<close>). What React does
  next depends on the tree above the component: with no error boundary it unmounts the
  whole root, which for this component runs no cleanup (none is held), the
  \<open>Unmount\<close> event of the model; with a boundary the component can be mounted again
  by a later commit on a new element or, after the boundary resets, on the same one.
  The traces of \<open>Failures\<close> allow every such continuation, so they include each
  behaviour of React and some that a tree without a boundary never shows.
\<close>

datatype js_error = RejectedDataset dataset

type_synonym outcome = "(js_error \<times> world) + world"

definition ex_bind :: "outcome \<Rightarrow> (world \<Rightarrow> outcome) \<Rightarrow> outcome" where
  "ex_bind r f = (case r of Inl ew \<Rightarrow> Inl ew | Inr w \<Rightarrow> f w)"

primrec ex_iter :: "nat \<Rightarrow> (world \<Rightarrow> outcome) \<Rightarrow> world \<Rightarrow> outcome" where
  "ex_iter 0 f w = Inr w"
| "ex_iter (Suc n) f w = ex_bind (f w) (ex_iter n f)"

text \<open>\<^verbatim>\<open>registerMap(name, json)\<close> when the engine may reject the dataset: the call
  is issued, and a rejected dataset is not registered.\<close>

definition register_map_ex :: "(dataset \<Rightarrow> bool) \<Rightarrow> js_string \<Rightarrow> dataset \<Rightarrow> world \<Rightarrow> outcome" where
  "register_map_ex bad k d w =
     (if bad d then Inl (RejectedDataset d, log_call (RegisterMap k d) w)
      else Inr (register_map k d w))"

text \<open>The chart's \<^verbatim>\<open>click\<close> handler, lines 242--254.\<close>

definition on_feature_click_ex :: "(dataset \<Rightarrow> bool) \<Rightarrow> js_string \<Rightarrow> world \<Rightarrow> outcome" where
  "on_feature_click_ex bad name w =
     (if js_truthy (name_to_code_get name) then
        (if name \<noteq> jiangxi then Inr w
         else ex_bind (register_map_ex bad name JiangxiJson w)
                (\<lambda>w. Inr (chart_set_option jx_option w)))
      else ex_bind (register_map_ex bad china_key ChinaJson w)
             (\<lambda>w. Inr (chart_set_option china_option w)))"

text \<open>The zrender \<^verbatim>\<open>click\<close> handler, lines 256--259.\<close>

definition on_background_click_ex :: "(dataset \<Rightarrow> bool) \<Rightarrow> world \<Rightarrow> outcome" where
  "on_background_click_ex bad w =
     ex_bind (register_map_ex bad china_key ChinaJson w) (\<lambda>w. Inr (chart_set_option china_option w))"

text \<open>The effect, lines 235--260: the cleanup reaches React only when the body
  returns.\<close>

definition mount_effect_ex :: "(dataset \<Rightarrow> bool) \<Rightarrow> bool \<Rightarrow> world \<Rightarrow> outcome" where
  "mount_effect_ex bad ref_set w =
     (if ref_set then
        ex_bind (register_map_ex bad china_key ChinaJson (chart_init w))
          (\<lambda>w. Inr ((zr_on_click (chart_on_click (chart_set_option china_option w)))
                      \<lparr>w_cleanup := True\<rparr>))
      else Inr (w\<lparr>w_cleanup := False\<rparr>))"

definition react_commit_ex :: "(dataset \<Rightarrow> bool) \<Rightarrow> bool \<Rightarrow> world \<Rightarrow> outcome" where
  "react_commit_ex bad ref_set w = mount_effect_ex bad ref_set (react_unmount w)"

text \<open>zrender's dispatch of a click: its handlers in turn, then echarts' dispatcher;
  an exception ends the dispatch.\<close>

definition deliver_click_ex ::
  "(world \<Rightarrow> outcome) \<Rightarrow> (js_string \<Rightarrow> world \<Rightarrow> outcome) \<Rightarrow> js_string option \<Rightarrow> world \<Rightarrow> outcome" where
  "deliver_click_ex zr_handler click_handler target w =
     (case live_chart w of
        None \<Rightarrow> Inr w
      | Some c \<Rightarrow>
          ex_bind (ex_iter (ch_zr_click c) zr_handler w)
            (\<lambda>w'. case target of
                    None \<Rightarrow> Inr w'
                  | Some name \<Rightarrow> ex_iter (ch_click c) (click_handler name) w'))"

definition canvas_click_ex :: "(dataset \<Rightarrow> bool) \<Rightarrow> js_string option \<Rightarrow> world \<Rightarrow> outcome" where
  "canvas_click_ex bad = deliver_click_ex (on_background_click_ex bad) (on_feature_click_ex bad)"

subsection \<open>Proofs\<close>

lemma ex_bind_simps [simp]:
  "ex_bind (Inr w) f = f w" "ex_bind (Inl ew) f = Inl ew"
  by (simp_all add: ex_bind_def)

lemma ex_bind_Inr [simp]: "ex_bind r Inr = r"
  by (cases r) simp_all

lemma ex_iter_0_fun [simp]: "ex_iter 0 f = Inr"
  by (rule ext) simp

lemma ex_iter_Inr: "ex_iter n (\<lambda>w. Inr (f w)) w = Inr ((f ^^ n) w)"
  by (induction n arbitrary: w) (simp_all add: funpow_swap1)

lemma register_map_ex_ok [simp]:
  "\<not> bad d \<Longrightarrow> register_map_ex bad k d w = Inr (register_map k d w)"
  by (simp add: register_map_ex_def)

lemma register_map_ex_rejected [simp]:
  "bad d \<Longrightarrow> register_map_ex bad k d w = Inl (RejectedDataset d, log_call (RegisterMap k d) w)"
  by (simp add: register_map_ex_def)

lemma handlers_ex_total:
  "on_feature_click_ex (\<lambda>_. False) name = (\<lambda>w. Inr (on_feature_click name w))"
  "on_background_click_ex (\<lambda>_. False) = (\<lambda>w. Inr (on_background_click w))"
  "mount_effect_ex (\<lambda>_. False) r w = Inr (mount_effect r w)"
  by (simp_all add: fun_eq_iff on_feature_click_ex_def on_feature_click_def
      on_background_click_ex_def on_background_click_def mount_effect_ex_def mount_effect_def)

lemma unmount_no_cleanup:
  assumes "reachable w"
  shows "live_chart (react_unmount w) = None" and "\<not> w_cleanup (react_unmount w)"
proof -
  have "app_inv (react_unmount w)" and u: "live_chart (react_unmount w) = None"
    using reachable_app_inv [OF assms] by (rule react_unmount_inv(1), rule react_unmount_inv(2))
  then show "live_chart (react_unmount w) = None" and "\<not> w_cleanup (react_unmount w)"
    by (simp_all add: app_inv_def)
qed

text \<open>A click on the live chart of a reachable world runs each handler once.\<close>

lemma canvas_click_ex_live:
  assumes "reachable w" and "view_of w = Some v"
  shows "canvas_click_ex bad t w =
           ex_bind (on_background_click_ex bad w)
             (\<lambda>w'. case t of None \<Rightarrow> Inr w' | Some name \<Rightarrow> on_feature_click_ex bad name w')"
proof -
  obtain c where live: "live_chart w = Some c" and "chart_ok w c"
    using click_on_live [OF assms] by blast
  then have "ch_zr_click c = 1" "ch_click c = 1"
    by (simp_all add: chart_ok_def)
  with live show ?thesis
    by (cases t) (simp_all add: canvas_click_ex_def deliver_click_ex_def)
qed

subsection \<open>Properties of the exception paths\<close>

text \<open>
  When the engine rejects no dataset, the exception-aware model of the effect,
  of React's commit and of the click delivery returns, with exactly the world of the
  model without exceptions: the two models agree wherever no call throws.
\<close>

lemma exceptions_conservative:
  "canvas_click_ex (\<lambda>_. False) t w = Inr (canvas_click t w) \<and>
   react_commit_ex (\<lambda>_. False) r w = Inr (react_commit r w)"
proof -
  have "canvas_click_ex (\<lambda>_. False) t w = Inr (canvas_click t w)"
    by (simp add: canvas_click_ex_def deliver_click_ex_def canvas_click_def deliver_click_def
        handlers_ex_total ex_iter_Inr Let_def split: option.split)
  moreover have "react_commit_ex (\<lambda>_. False) r w = Inr (react_commit r w)"
    by (simp add: react_commit_ex_def react_commit_def handlers_ex_total)
  ultimately show ?thesis by simp
qed

text \<open>
  C20. The effect has no exception path: when the engine rejects the national dataset,
  a commit with the element throws after \<^verbatim>\<open>init\<close>, leaving a live chart with no
  handler and no cleanup held by React, so the unmount that follows leaves the chart
  undisposed. The specification (section 5) requires release on every exit path,
  error exits during initialization included.
\<close>

theorem failed_mount_leaks_chart:
  assumes "reachable w" and "bad ChinaJson"
  shows "\<exists>w'. react_commit_ex bad True w = Inl (RejectedDataset ChinaJson, w') \<and>
    live_chart w' = Some \<lparr>ch_option = JObj [], ch_click = 0, ch_zr_click = 0, ch_disposed = False\<rparr> \<and>
    \<not> w_cleanup w' \<and> react_unmount w' = w'"
proof -
  let ?u = "react_unmount w"
  let ?w' = "log_call (RegisterMap china_key ChinaJson) (chart_init ?u)"
  have u: "live_chart ?u = None" "\<not> w_cleanup ?u"
    using assms(1) by (rule unmount_no_cleanup(1), rule unmount_no_cleanup(2))
  have "react_commit_ex bad True w = Inl (RejectedDataset ChinaJson, ?w')"
    using assms(2) by (simp add: react_commit_ex_def mount_effect_ex_def)
  moreover have "live_chart ?w' =
      Some \<lparr>ch_option = JObj [], ch_click = 0, ch_zr_click = 0, ch_disposed = False\<rparr>"
    using u(1) by (simp add: chart_simps)
  moreover have "\<not> w_cleanup ?w'"
    using u(2) by (simp add: chart_simps)
  ultimately show ?thesis
    by (simp add: react_unmount_def)
qed

theorem failed_mount_leaks_chart_witness:
  "reachable (init_world Merge) \<and> (\<lambda>d. d = ChinaJson) ChinaJson \<and>
   (\<exists>w'. react_commit_ex (\<lambda>d. d = ChinaJson) True (init_world Merge) =
           Inl (RejectedDataset ChinaJson, w') \<and> react_unmount w' = w' \<and> live_chart w' \<noteq> None)"
  using failed_mount_leaks_chart [OF reachable.start [of Merge], of "\<lambda>d. d = ChinaJson"]
    reachable.start [of Merge]
  by auto

text \<open>
  C21. When the engine rejects Jiangxi's dataset, a click on Jiangxi on a reachable
  chart resets to the national option (zrender handler) and then throws in the
  chart's handler before \<^verbatim>\<open>setOption(jxOption)\<close>: the exception escapes the click,
  and the chart is left in the national view after exactly three calls.
\<close>

theorem rejected_province_keeps_national:
  assumes "reachable w" and "view_of w = Some v" and "bad JiangxiJson" and "\<not> bad ChinaJson"
  shows "\<exists>w'. canvas_click_ex bad (Some jiangxi) w = Inl (RejectedDataset JiangxiJson, w') \<and>
    view_of w' = Some National \<and>
    w_calls w' = w_calls w @ [RegisterMap china_key ChinaJson, SetOption china_option,
                              RegisterMap jiangxi JiangxiJson]"
proof -
  let ?w1 = "on_background_click w"
  let ?w' = "log_call (RegisterMap jiangxi JiangxiJson) ?w1"
  obtain c where live: "live_chart w = Some c" and ok: "chart_ok w c"
    using click_on_live [OF assms(1,2)] by blast
  obtain c1 where "live_chart ?w1 = Some c1" "view_of_option (ch_option c1) = Some National"
    using on_background_click_ok [OF live ok] by blast
  then have view: "view_of ?w' = Some National"
    by (simp add: view_of_live chart_simps)
  have truthy: "js_truthy (name_to_code_get jiangxi)"
    by (rule region_code_truthy) (simp add: jiangxi_code)
  have "canvas_click_ex bad (Some jiangxi) w = Inl (RejectedDataset JiangxiJson, ?w')"
    using assms truthy
    by (simp add: canvas_click_ex_live on_background_click_ex_def on_background_click_def
        on_feature_click_ex_def)
  with view show ?thesis
    by (simp add: chart_simps background_calls)
qed

theorem rejected_province_keeps_national_witness:
  "reachable (mounted_world Merge) \<and> view_of (mounted_world Merge) = Some National \<and>
   (\<lambda>d. d = JiangxiJson) JiangxiJson \<and> \<not> (\<lambda>d. d = JiangxiJson) ChinaJson \<and>
   (\<exists>w'. canvas_click_ex (\<lambda>d. d = JiangxiJson) (Some jiangxi) (mounted_world Merge) =
           Inl (RejectedDataset JiangxiJson, w') \<and> view_of w' = Some National)"
proof -
  have r: "reachable (mounted_world Merge)" and v: "view_of (mounted_world Merge) = Some National"
    by (rule mounted_world_facts(1), rule mounted_world_facts(3))
  show ?thesis
    using rejected_province_keeps_national [OF r v, of "\<lambda>d. d = JiangxiJson"] r v
    by blast
qed

text \<open>
  C22. When \<^verbatim>\<open>registerMap('china', ...)\<close> throws in the zrender handler, the
  dispatch of the click ends there: whatever was clicked, the chart's own handler never
  runs, and the click leaves only the failed call behind, with the chart unchanged.
\<close>

theorem rejected_national_aborts_click:
  assumes "reachable w" and "view_of w = Some v" and "bad ChinaJson"
  shows "canvas_click_ex bad t w =
           Inl (RejectedDataset ChinaJson, log_call (RegisterMap china_key ChinaJson) w)"
  using assms
  by (simp add: canvas_click_ex_live on_background_click_ex_def)

theorem rejected_national_aborts_click_witness:
  "reachable (mounted_world Merge) \<and> view_of (mounted_world Merge) = Some National \<and>
   (\<lambda>d. d = ChinaJson) ChinaJson \<and>
   canvas_click_ex (\<lambda>d. d = ChinaJson) (Some jiangxi) (mounted_world Merge) =
     Inl (RejectedDataset ChinaJson, log_call (RegisterMap china_key ChinaJson) (mounted_world Merge))"
  using rejected_national_aborts_click [OF mounted_world_facts(1,3), of "\<lambda>d. d = ChinaJson"]
    mounted_world_facts(1,3)
  by simp

end
