(* ===== verification/Failures.thy ===== *)
theory Failures
  imports Errors
begin

text \<open>
  Exceptions along whole traces. An exception thrown by an effect or a handler does
  not stop the page: the world it leaves is the world the next event meets
  (\<open>outcome_world\<close>). \<open>app_step_ex\<close> is the step of \<open>Lifecycle\<close> with the
  exception-aware operations of \<open>Errors\<close>, each event with its own verdict of the
  engine (\<open>bad\<close>), and \<open>reachable_ex\<close> the worlds any sequence of such steps
  reaches. Beside the worlds of the failure-free program these include the world a
  failed mount leaves: a live chart with no handler and no cleanup held by React
  (\<open>fresh_chart\<close>), which the next \<^verbatim>\<open>init\<close> on the same element returns again.
  The invariant \<open>ex_inv\<close> says that a live chart is either such a leftover or a
  chart in the sense of \<open>chart_ok\<close> whose cleanup React holds.
\<close>

fun outcome_world :: "outcome \<Rightarrow> world" where
  "outcome_world (Inl (e, w)) = w"
| "outcome_world (Inr w) = w"

fun app_step_ex :: "(dataset \<Rightarrow> bool) \<Rightarrow> world \<Rightarrow> app_event \<Rightarrow> outcome" where
  "app_step_ex bad w (Commit r) = react_commit_ex bad r w"
| "app_step_ex bad w Unmount = Inr (react_unmount w)"
| "app_step_ex bad w (Click t) = canvas_click_ex bad t w"

inductive reachable_ex :: "world \<Rightarrow> bool" where
  start: "reachable_ex (init_world m)"
| step: "reachable_ex w \<Longrightarrow> reachable_ex (outcome_world (app_step_ex bad w e))"

abbreviation fresh_chart :: chart where
  "fresh_chart \<equiv> \<lparr>ch_option = JObj [], ch_click = 0, ch_zr_click = 0, ch_disposed = False\<rparr>"

definition ex_inv :: "world \<Rightarrow> bool" where
  "ex_inv w \<longleftrightarrow>
     (w_cleanup w \<longrightarrow> live_chart w \<noteq> None) \<and>
     (case live_chart w of
        None \<Rightarrow> True
      | Some c \<Rightarrow> if w_cleanup w then chart_ok w c else c = fresh_chart)"

subsection \<open>Proofs\<close>

lemma chart_ok_log_register:
  "chart_ok w c \<Longrightarrow> chart_ok (log_call (RegisterMap k d) w) c"
  by (simp add: chart_ok_def chart_simps)

lemma ex_handlers_china_ok:
  assumes "\<not> bad ChinaJson"
  shows "on_background_click_ex bad w = Inr (on_background_click w)"
    and "mount_effect_ex bad r w = Inr (mount_effect r w)"
    and "on_feature_click_ex bad name w = Inr (on_feature_click name w) \<or>
         on_feature_click_ex bad name w =
           Inl (RejectedDataset JiangxiJson, log_call (RegisterMap jiangxi JiangxiJson) w)"
  using assms
    apply (simp_all add: on_background_click_ex_def on_background_click_def mount_effect_ex_def
      mount_effect_def)
  by (cases "bad JiangxiJson") (auto simp: on_feature_click_ex_def on_feature_click_def)

lemma ex_inv_init: "ex_inv (init_world m)"
  by (simp add: ex_inv_def init_world_def live_chart_def)

lemma app_inv_ex_inv: "app_inv w \<Longrightarrow> ex_inv w"
  by (auto simp: app_inv_def ex_inv_def split: option.splits)

text \<open>After React has run (or found no) cleanup, the element holds no live chart or
  the leftover of a failed mount, and \<^verbatim>\<open>init\<close> hands back a fresh chart.\<close>

lemma ex_inv_unmount:
  assumes "ex_inv w"
  shows "ex_inv (react_unmount w)" and "\<not> w_cleanup (react_unmount w)"
    and "live_chart (chart_init (react_unmount w)) = Some fresh_chart"
proof -
  have u: "\<not> w_cleanup (react_unmount w) \<and>
      (live_chart (react_unmount w) = None \<or> live_chart (react_unmount w) = Some fresh_chart)"
  proof (cases "w_cleanup w")
    case True
    then show ?thesis
      by (simp add: react_unmount_def effect_cleanup_def chart_simps)
  next
    case False
    with assms show ?thesis
      by (auto simp: react_unmount_def ex_inv_def split: option.splits)
  qed
  then show "\<not> w_cleanup (react_unmount w)" and "ex_inv (react_unmount w)"
    by (auto simp: ex_inv_def)
  from u show "live_chart (chart_init (react_unmount w)) = Some fresh_chart"
    by (auto simp: chart_init_def log_call_def live_chart_def)
qed

lemma mount_from_fresh:
  assumes "live_chart (chart_init w) = Some fresh_chart"
  shows "live_chart (mount_effect True w) = Some mounted_chart"
    and "chart_ok (mount_effect True w) mounted_chart" and "w_cleanup (mount_effect True w)"
proof -
  show "live_chart (mount_effect True w) = Some mounted_chart"
    using assms by (simp add: mount_effect_def chart_simps apply_option_fresh)
  show "chart_ok (mount_effect True w) mounted_chart"
    by (simp add: chart_ok_def mount_effect_def chart_simps china_option_wf
        china_option_geo_map view_of_option_china)
  show "w_cleanup (mount_effect True w)"
    by (simp add: mount_effect_def)
qed

lemma ex_inv_commit:
  assumes "ex_inv w"
  shows "ex_inv (outcome_world (react_commit_ex bad r w))"
proof -
  let ?u = "react_unmount w"
  note u = ex_inv_unmount [OF assms]
  show ?thesis
  proof (cases "r \<and> \<not> bad ChinaJson")
    case True
    then have "react_commit_ex bad r w = Inr (mount_effect True ?u)"
      by (simp add: react_commit_ex_def ex_handlers_china_ok(2))
    with mount_from_fresh [OF u(3)] show ?thesis
      by (simp add: ex_inv_def)
  next
    case False
    then consider "\<not> r" | "r" "bad ChinaJson" by blast
    then show ?thesis
    proof cases
      case 1
      with u(1,2) show ?thesis
        by (auto simp: react_commit_ex_def mount_effect_ex_def ex_inv_def chart_simps
            split: option.splits)
    next
      case 2
      with u(2,3) show ?thesis
        by (simp add: react_commit_ex_def mount_effect_ex_def ex_inv_def chart_simps)
    qed
  qed
qed

lemma ex_inv_ok: "live_chart w = Some c \<Longrightarrow> chart_ok w c \<Longrightarrow> w_cleanup w \<Longrightarrow> ex_inv w"
  by (simp add: ex_inv_def)

lemma canvas_click_ex_ok:
  assumes "live_chart w = Some c" and "chart_ok w c"
  shows "canvas_click_ex bad t w =
           ex_bind (on_background_click_ex bad w)
             (\<lambda>w'. case t of None \<Rightarrow> Inr w' | Some name \<Rightarrow> on_feature_click_ex bad name w')"
proof -
  from assms(2) have "ch_zr_click c = 1" "ch_click c = 1"
    by (simp_all add: chart_ok_def)
  with assms(1) show ?thesis
    by (cases t) (simp_all add: canvas_click_ex_def deliver_click_ex_def)
qed

lemma ex_inv_click:
  assumes "ex_inv w"
  shows "ex_inv (outcome_world (canvas_click_ex bad t w))"
proof (cases "live_chart w")
  case None
  with assms show ?thesis
    by (simp add: canvas_click_ex_def deliver_click_ex_def)
next
  case (Some c)
  show ?thesis
  proof (cases "w_cleanup w")
    case False
    with assms Some have "c = fresh_chart" by (simp add: ex_inv_def)
    with Some assms show ?thesis
      by (simp add: canvas_click_ex_def deliver_click_ex_def split: option.split)
  next
    case True
    with assms Some have ok: "chart_ok w c" by (simp add: ex_inv_def)
    show ?thesis
    proof (cases "bad ChinaJson")
      case True
      with Some ok \<open>w_cleanup w\<close> show ?thesis
        by (simp add: canvas_click_ex_ok on_background_click_ex_def ex_inv_ok
            chart_ok_log_register chart_simps)
    next
      case False
      obtain c1 where c1: "live_chart (on_background_click w) = Some c1"
        "chart_ok (on_background_click w) c1" "w_cleanup (on_background_click w) = w_cleanup w"
        using on_background_click_ok [OF Some ok] by blast
      show ?thesis
      proof (cases t)
        case None
        with False Some ok c1 \<open>w_cleanup w\<close> show ?thesis
          by (simp add: canvas_click_ex_ok ex_handlers_china_ok(1) ex_inv_ok)
      next
        case (Some name)
        obtain c2 where c2: "live_chart (on_feature_click name (on_background_click w)) = Some c2"
          "chart_ok (on_feature_click name (on_background_click w)) c2"
          "w_cleanup (on_feature_click name (on_background_click w)) = w_cleanup (on_background_click w)"
          using on_feature_click_ok [OF c1(1,2)] by blast
        have "ex_inv (on_feature_click name (on_background_click w))"
          using c2 c1(3) \<open>w_cleanup w\<close> by (simp add: ex_inv_ok)
        moreover have "ex_inv (log_call (RegisterMap jiangxi JiangxiJson) (on_background_click w))"
          using c1 \<open>w_cleanup w\<close> by (simp add: ex_inv_ok chart_ok_log_register chart_simps)
        ultimately show ?thesis
          using ex_handlers_china_ok(3) [of bad name "on_background_click w", OF False]
            \<open>live_chart w = Some c\<close> ok Some False
          by (auto simp: canvas_click_ex_ok ex_handlers_china_ok(1))
      qed
    qed
  qed
qed

lemma reachable_ex_inv: "reachable_ex w \<Longrightarrow> ex_inv w"
proof (induction rule: reachable_ex.induct)
  case (start m)
  show ?case by (rule ex_inv_init)
next
  case (step w bad e)
  then show ?case
    by (cases e) (simp_all add: ex_inv_commit ex_inv_unmount(1) ex_inv_click)
qed

text \<open>The world a mount leaves when the national dataset is rejected.\<close>

lemma failed_mount_world:
  "react_commit_ex (\<lambda>d. d = ChinaJson) True (init_world m) =
     Inl (RejectedDataset ChinaJson,
          log_call (RegisterMap china_key ChinaJson) (chart_init (react_unmount (init_world m))))"
  "live_chart (log_call (RegisterMap china_key ChinaJson) (chart_init (react_unmount (init_world m)))) =
     Some fresh_chart"
  by (simp_all add: react_commit_ex_def mount_effect_ex_def react_unmount_def init_world_def
      chart_init_def log_call_def live_chart_def)

lemma canvas_click_ex_total:
  "canvas_click_ex (\<lambda>_. False) t w = Inr (canvas_click t w)"
  by (simp add: canvas_click_ex_def deliver_click_ex_def canvas_click_def deliver_click_def
      handlers_ex_total ex_iter_Inr Let_def split: option.split)

subsection \<open>Properties of traces with failures\<close>

text \<open>
  C24. In every world reached by any sequence of commits, unmounts and clicks in which
  any call of \<^verbatim>\<open>registerMap\<close> may be rejected, a live chart has at most one handler
  on each channel, so no click is ever dispatched twice; it has its handlers exactly
  when React holds the cleanup that removes them.
\<close>

theorem reachable_ex_single_dispatch:
  assumes "reachable_ex w" and "live_chart w = Some c"
  shows "ch_click c \<le> 1 \<and> ch_zr_click c \<le> 1 \<and> (w_cleanup w \<longleftrightarrow> ch_click c = 1 \<and> ch_zr_click c = 1)"
proof -
  have "ex_inv w" using assms(1) by (rule reachable_ex_inv)
  with assms(2) show ?thesis
    by (cases "w_cleanup w") (auto simp: ex_inv_def chart_ok_def)
qed

theorem reachable_ex_single_dispatch_witness:
  "reachable_ex (log_call (RegisterMap china_key ChinaJson) (chart_init (react_unmount (init_world Merge)))) \<and>
   live_chart (log_call (RegisterMap china_key ChinaJson) (chart_init (react_unmount (init_world Merge)))) =
     Some fresh_chart \<and>
   \<not> w_cleanup (log_call (RegisterMap china_key ChinaJson) (chart_init (react_unmount (init_world Merge))))"
proof -
  let ?w = "log_call (RegisterMap china_key ChinaJson) (chart_init (react_unmount (init_world Merge)))"
  have "reachable_ex (outcome_world (app_step_ex (\<lambda>d. d = ChinaJson) (init_world Merge) (Commit True)))"
    by (rule reachable_ex.step, rule reachable_ex.start)
  then have r: "reachable_ex ?w"
    by (simp add: failed_mount_world(1))
  have l: "live_chart ?w = Some fresh_chart" by (rule failed_mount_world(2))
  show ?thesis
    using reachable_ex_single_dispatch [OF r l] r l by simp
qed

text \<open>
  C25. Whatever failures came before, a commit with the element in which the engine
  accepts the national dataset returns, and leaves one chart, in the national view,
  with one handler per channel and its cleanup held by React: the leftover of a failed
  mount is taken over by the next successful one.
\<close>

theorem failed_mount_recovers:
  assumes "reachable_ex w" and "\<not> bad ChinaJson"
  shows "\<exists>w'. react_commit_ex bad True w = Inr w' \<and> live_chart w' = Some mounted_chart \<and>
           view_of w' = Some National \<and> w_cleanup w'"
proof -
  have u: "live_chart (chart_init (react_unmount w)) = Some fresh_chart"
    using reachable_ex_inv [OF assms(1)] by (rule ex_inv_unmount(3))
  have "react_commit_ex bad True w = Inr (mount_effect True (react_unmount w))"
    using assms(2) by (simp add: react_commit_ex_def ex_handlers_china_ok(2))
  with mount_from_fresh [OF u] show ?thesis
    by (simp add: view_of_live view_of_option_china)
qed

theorem failed_mount_recovers_witness:
  "reachable_ex (log_call (RegisterMap china_key ChinaJson) (chart_init (react_unmount (init_world Merge)))) \<and>
   \<not> (\<lambda>_. False) ChinaJson \<and>
   (\<exists>w'. react_commit_ex (\<lambda>_. False) True
           (log_call (RegisterMap china_key ChinaJson) (chart_init (react_unmount (init_world Merge)))) =
         Inr w' \<and> view_of w' = Some National)"
proof -
  let ?w = "log_call (RegisterMap china_key ChinaJson) (chart_init (react_unmount (init_world Merge)))"
  have "reachable_ex (outcome_world (app_step_ex (\<lambda>d. d = ChinaJson) (init_world Merge) (Commit True)))"
    by (rule reachable_ex.step, rule reachable_ex.start)
  then have r: "reachable_ex ?w"
    by (simp add: failed_mount_world(1))
  show ?thesis
    using failed_mount_recovers [OF r, of "\<lambda>_. False"] r by auto
qed

text \<open>
  Every world of the failure-free program is a world of the program with failures:
  the exception-aware traces, with every dataset accepted, replay each commit, unmount
  and click of the failure-free model.
\<close>

lemma reachable_within_failures:
  assumes "reachable w"
  shows "reachable_ex w"
  using assms
proof (induction rule: reachable.induct)
  case (start m)
  show ?case by (rule reachable_ex.start)
next
  case (commit w r)
  from commit.IH have "reachable_ex (outcome_world (app_step_ex (\<lambda>_. False) w (Commit r)))"
    by (rule reachable_ex.step)
  then show ?case
    by (simp add: react_commit_ex_def react_commit_def handlers_ex_total)
next
  case (unmount w)
  from unmount.IH have "reachable_ex (outcome_world (app_step_ex (\<lambda>_. False) w Unmount))"
    by (rule reachable_ex.step)
  then show ?case by simp
next
  case (click w t)
  from click.IH have "reachable_ex (outcome_world (app_step_ex (\<lambda>_. False) w (Click t)))"
    by (rule reachable_ex.step)
  then show ?case
    by (simp add: canvas_click_ex_total)
qed

end
