(* ===== verification/Literals.thy ===== *)
theory Literals
  imports App
begin

text \<open>
  The object literals of \<^verbatim>\<open>App.tsx\<close> under JavaScript's own reading, and the
  ranges of their data. An object literal is evaluated left to right, and a key that
  occurs twice keeps the value of its last occurrence (\<open>js_literal_get\<close>, and
  \<open>jget_literal\<close> along a path of nested literals); the model reads the first
  occurrence (\<open>map_of\<close>, \<open>jget\<close>). The two readings agree on the table and on
  both options because no literal repeats a key. The table's codes are six-digit
  administrative division codes of provinces, and every string of the table and of
  the options is made of code units below the surrogate range, so that one code unit
  is one character, as the model of strings assumes.
\<close>

definition js_literal_get :: "('k \<times> 'v) list \<Rightarrow> 'k \<Rightarrow> 'v option" where
  "js_literal_get fs k = map_of (rev fs) k"

fun jget_literal :: "jval \<Rightarrow> js_string list \<Rightarrow> jval option" where
  "jget_literal v [] = Some v"
| "jget_literal (JObj fs) (k # p) =
     (case js_literal_get fs k of None \<Rightarrow> None | Some v \<Rightarrow> jget_literal v p)"
| "jget_literal _ (_ # _) = None"

text \<open>Every string a value holds: its keys, string values and formatter results.\<close>

fun jstrings :: "jval \<Rightarrow> js_string list" where
  "jstrings (JStr s) = [s]"
| "jstrings (JFun s) = [s]"
| "jstrings (JArr vs) = concat (map jstrings vs)"
| "jstrings (JObj fs) = concat (map (\<lambda>kv. fst kv # jstrings (snd kv)) fs)"
| "jstrings (JNum _) = []"
| "jstrings (JBool _) = []"

subsection \<open>Proofs\<close>

lemma map_of_rev_distinct:
  "distinct (map fst fs) \<Longrightarrow> map_of (rev fs) = map_of fs"
proof (induction fs)
  case (Cons kv fs)
  then have "dom (map_of [kv]) \<inter> dom (map_of fs) = {}"
    by (cases kv) (simp add: dom_map_of_conv_image_fst)
  then have "map_of [kv] ++ map_of fs = map_of fs ++ map_of [kv]"
    by (rule map_add_comm)
  with Cons show ?case
    by (simp add: map_of_append [symmetric])
qed simp

lemma jget_literal_wf:
  "wf_json v \<Longrightarrow> jget_literal v p = jget v p"
proof (induction v p rule: jget_literal.induct)
  case (2 fs k p)
  then have d: "distinct (map fst fs)" and vs: "\<forall>kv\<in>set fs. wf_json (snd kv)"
    by (simp_all add: list_all_iff)
  show ?case
  proof (cases "map_of fs k")
    case (Some v)
    then have "wf_json v"
      using vs map_of_SomeD [OF Some] by fastforce
    with Some d 2(1) show ?thesis
      by (simp add: js_literal_get_def map_of_rev_distinct)
  qed (simp add: js_literal_get_def map_of_rev_distinct d)
qed simp_all

lemma list_all_js_below [simp]: "list_all (\<lambda>u. u < 55296) (js s)"
proof -
  have "of_char c < (256 :: nat)" for c :: char
    using of_char_mod_256 [of c] by (metis mod_less_divisor zero_less_numeral)
  then have "of_char c < (55296 :: nat)" for c :: char
    by (rule less_trans) simp
  then have "u \<in> set (js s) \<Longrightarrow> u < 55296" for u
    by (auto simp: js_def)
  then show ?thesis by (simp add: list_all_iff)
qed

subsection \<open>Properties of the literals\<close>

text \<open>
  JavaScript's reading of the object literals, in which the last occurrence of a
  key wins, agrees with the model's first-match reading on the table
  \<^verbatim>\<open>nameToCode\<close> and, along every path, on \<^verbatim>\<open>chinaOption\<close> and
  \<^verbatim>\<open>jxOption\<close>: no literal of the program repeats a key.
\<close>

lemma literal_reading_agrees:
  "js_literal_get name_to_code = region_code \<and>
   jget_literal china_option p = jget china_option p \<and>
   jget_literal jx_option p = jget jx_option p"
  by (simp add: fun_eq_iff js_literal_get_def map_of_rev_distinct name_to_code_distinct_keys
      jget_literal_wf china_option_wf jx_option_wf)

text \<open>
  The codes of \<^verbatim>\<open>nameToCode\<close> are distinct six-digit administrative division
  codes of province level (between 100000 and 820000, multiples of 10000), and every
  name is a non-empty string of CJK unified ideographs (code units 0x4E00 to 0x9FFF).
\<close>

lemma name_to_code_bounds:
  "distinct (map snd name_to_code) \<and>
   (\<forall>(n, c) \<in> set name_to_code.
      100000 \<le> c \<and> c \<le> 820000 \<and> c mod 10000 = 0 \<and>
      n \<noteq> [] \<and> (\<forall>u \<in> set n. 0x4E00 \<le> u \<and> u \<le> 0x9FFF))"
proof -
  have "list_all (\<lambda>(n, c). 100000 \<le> c \<and> c \<le> 820000 \<and> c mod 10000 = 0 \<and>
      n \<noteq> [] \<and> list_all (\<lambda>u. 0x4E00 \<le> u \<and> u \<le> 0x9FFF) n) name_to_code"
    by (simp add: name_to_code_def)
  moreover have "distinct (map snd name_to_code)"
    by (simp add: name_to_code_def)
  ultimately show ?thesis
    by (simp add: list_all_iff)
qed

text \<open>
  Every string of the two options (keys, values and formatter results) consists
  of code units below the surrogate range 0xD800: each code unit is a character of the
  Basic Multilingual Plane, as the model of strings assumes.
\<close>

lemma option_strings_bmp:
  "\<forall>s \<in> set (jstrings china_option @ jstrings jx_option). \<forall>u \<in> set s. u < 0xD800"
proof -
  have "list_all (list_all (\<lambda>u. u < 55296)) (jstrings china_option @ jstrings jx_option)"
    by (simp add: model_data)
  then show ?thesis
    by (simp add: list_all_iff)
qed

end
