(* ===== verification/Components.thy ===== *)
theory Components
  imports Lifecycle
begin

text \<open>
  How echarts' \<^verbatim>\<open>setOption(option)\<close> (\<^verbatim>\<open>notMerge\<close> unset) really combines an
  option with the chart's: component by component. For each key of the new option, a
  key that names a component type (\<^verbatim>\<open>title\<close>, \<^verbatim>\<open>tooltip\<close>, \<^verbatim>\<open>geo\<close>,
  \<^verbatim>\<open>visualMap\<close>, \<^verbatim>\<open>series\<close>, the types the program's options use) holds one
  component or an array of them (normalised to an array, \<open>cmpt_list\<close>); the new
  components are matched with the existing ones and each matched pair is merged with
  zrender's deep merge, unmatched existing components are kept and unmatched new ones
  added (\<open>merge_by_index\<close>). Any other key (\<^verbatim>\<open>backgroundColor\<close>) is merged as a
  value. echarts matches by \<^verbatim>\<open>id\<close>, then by \<^verbatim>\<open>name\<close>, then by index; the
  components of the program's options carry no \<^verbatim>\<open>id\<close>, and the named ones (the
  three series) have the same names at the same indices in every option the chart
  holds, so index matching is the library's matching here.

  The rest of the development merges an option as one value (\<open>jmerge\<close>). The
  lemmas of this theory show that the two agree, through the normalisation
  \<open>ec_norm\<close> of the component keys to arrays, on every option the component applies
  to a chart of a reachable world.
\<close>

definition is_component :: "js_string \<Rightarrow> bool" where
  "is_component k \<longleftrightarrow> k \<in> set (map js [''title'', ''tooltip'', ''geo'', ''visualMap'', ''series''])"

fun cmpt_list :: "jval \<Rightarrow> jval list" where
  "cmpt_list (JArr vs) = vs"
| "cmpt_list v = [v]"

fun merge_by_index :: "jval list \<Rightarrow> jval list \<Rightarrow> jval list" where
  "merge_by_index (t # ts) (s # ss) = jmerge t s # merge_by_index ts ss"
| "merge_by_index [] ss = ss"
| "merge_by_index ts [] = ts"

fun ec_merge_fields ::
  "(js_string \<times> jval) list \<Rightarrow> (js_string \<times> jval) list \<Rightarrow> (js_string \<times> jval) list" where
  "ec_merge_fields ts [] = ts"
| "ec_merge_fields ts ((k, v) # ss) =
     ec_merge_fields
       (AList.update k
          (if is_component k then
             JArr (merge_by_index (case map_of ts k of None \<Rightarrow> [] | Some c \<Rightarrow> cmpt_list c)
                     (cmpt_list v))
           else (case map_of ts k of None \<Rightarrow> v | Some c \<Rightarrow> jmerge c v))
          ts)
       ss"

fun ec_merge :: "jval \<Rightarrow> jval \<Rightarrow> jval" where
  "ec_merge (JObj ts) (JObj ss) = JObj (ec_merge_fields ts ss)"
| "ec_merge t s = s"

text \<open>The model's option read as the library keeps it: every component key an array.\<close>

definition ec_norm :: "jval \<Rightarrow> jval" where
  "ec_norm v =
     (case v of
        JObj ts \<Rightarrow> JObj (map (\<lambda>(k, x). (k, if is_component k then JArr (cmpt_list x) else x)) ts)
      | _ \<Rightarrow> v)"

text \<open>
  When the two merges agree on one key: the chart has no component there, or both
  sides hold one component (an object), or the chart already holds exactly the new
  value.
\<close>

fun ec_agree :: "jval option \<Rightarrow> jval \<Rightarrow> bool" where
  "ec_agree None v = True"
| "ec_agree (Some x) v = (is_obj x \<and> is_obj v \<or> x = v \<and> wf_json v)"

definition ec_fits :: "jval \<Rightarrow> jval \<Rightarrow> bool" where
  "ec_fits x opt =
     (case (x, opt) of
        (JObj ts, JObj ss) \<Rightarrow>
          list_all (\<lambda>(k, v). is_component k \<longrightarrow> ec_agree (map_of ts k) v) ss
      | _ \<Rightarrow> False)"

text \<open>What every option a merging chart of the component holds satisfies.\<close>

definition ec_inv :: "jval \<Rightarrow> bool" where
  "ec_inv x \<longleftrightarrow> wf_json x \<and> ec_fits x china_option \<and> ec_fits x jx_option"

subsection \<open>Proofs\<close>

lemma map_of_norm:
  "map_of (map (\<lambda>(k, x). (k, f k x)) ts) k = map_option (f k) (map_of ts k)"
  by (induction ts) auto

lemma update_norm:
  "map (\<lambda>(k, x). (k, f k x)) (AList.update k v ts) = AList.update k (f k v) (map (\<lambda>(k, x). (k, f k x)) ts)"
  by (induction ts) auto

lemma merge_by_index_same:
  "list_all wf_json vs \<Longrightarrow> merge_by_index vs vs = vs"
  by (induction vs) (simp_all add: jmerge_same)

lemma jmerge_is_obj: "is_obj t \<Longrightarrow> is_obj s \<Longrightarrow> is_obj (jmerge t s)"
  by (cases t; cases s) simp_all

text \<open>One component key: merging the components is the normalised deep merge.\<close>

lemma ec_cmpt_agrees:
  assumes "ec_agree (Some t) v"
  shows "merge_by_index (cmpt_list t) (cmpt_list v) = cmpt_list (jmerge t v)"
proof (cases "is_obj t \<and> is_obj v")
  case True
  then show ?thesis by (cases t; cases v) simp_all
next
  case False
  with assms have "t = v" and wf: "wf_json v" by auto
  then show ?thesis
    using wf by (cases v) (simp_all add: jmerge_same merge_by_index_same)
qed

lemma ec_merge_fields_agrees:
  "distinct (map fst ss) \<Longrightarrow>
   list_all (\<lambda>(k, v). is_component k \<longrightarrow> ec_agree (map_of ts k) v) ss \<Longrightarrow>
   map (\<lambda>(k, x). (k, if is_component k then JArr (cmpt_list x) else x)) (jmerge_fields ts ss) =
   ec_merge_fields (map (\<lambda>(k, x). (k, if is_component k then JArr (cmpt_list x) else x)) ts) ss"
proof (induction ss arbitrary: ts)
  case (Cons kv ss)
  obtain k v where kv: "kv = (k, v)" by (cases kv)
  let ?nf = "\<lambda>k x. if is_component k then JArr (cmpt_list x) else x"
  let ?ts' = "AList.update k (case map_of ts k of None \<Rightarrow> v | Some t \<Rightarrow> jmerge t v) ts"
  have fresh: "k \<notin> fst ` set ss" and d: "distinct (map fst ss)"
    using Cons.prems(1) kv by auto
  have agree: "is_component k \<longrightarrow> ec_agree (map_of ts k) v"
    using Cons.prems(2) kv by simp
  have "list_all (\<lambda>(k', v'). is_component k' \<longrightarrow> ec_agree (map_of ?ts' k') v') ss"
    using Cons.prems(2) fresh kv
    by (auto simp: list_all_iff update_conv' rev_image_eqI)
  with d have IH: "map (\<lambda>(k, x). (k, ?nf k x)) (jmerge_fields ?ts' ss) =
      ec_merge_fields (map (\<lambda>(k, x). (k, ?nf k x)) ?ts') ss"
    by (rule Cons.IH)
  have "AList.update k (if is_component k then
            JArr (merge_by_index (case map_of (map (\<lambda>(k, x). (k, ?nf k x)) ts) k of
                                     None \<Rightarrow> [] | Some c \<Rightarrow> cmpt_list c) (cmpt_list v))
          else (case map_of (map (\<lambda>(k, x). (k, ?nf k x)) ts) k of None \<Rightarrow> v | Some c \<Rightarrow> jmerge c v))
          (map (\<lambda>(k, x). (k, ?nf k x)) ts) =
        map (\<lambda>(k, x). (k, ?nf k x)) ?ts'"
    using agree by (cases "map_of ts k") (auto simp: map_of_norm update_norm ec_cmpt_agrees)
  with IH kv show ?case by simp
qed simp

lemma ec_merge_agrees:
  "wf_json opt \<Longrightarrow> ec_fits x opt \<Longrightarrow> ec_norm (jmerge x opt) = ec_merge (ec_norm x) opt"
  by (cases x; cases opt) (simp_all add: ec_fits_def ec_norm_def ec_merge_fields_agrees)

lemma ec_agree_jmerge:
  assumes "ec_agree (Some t) v" and "ec_agree (Some t) v'" and "ec_agree (Some v) v'"
    and "wf_json v"
  shows "ec_agree (Some (jmerge t v)) v'"
proof (cases "is_obj t \<and> is_obj v")
  case True
  then have "is_obj (jmerge t v)" by (simp add: jmerge_is_obj)
  moreover have "is_obj v'" using assms(2) True by auto
  ultimately show ?thesis by simp
next
  case False
  with assms(1) have "t = v" by auto
  with assms(3,4) show ?thesis by (simp add: jmerge_same)
qed

lemma ec_fits_jmerge:
  assumes "wf_json x" and "wf_json opt" and "ec_fits x opt" and "ec_fits x opt'"
    and "ec_fits opt opt'"
  shows "ec_fits (jmerge x opt) opt'"
proof -
  obtain ts ss ss' where x: "x = JObj ts" and opt: "opt = JObj ss" and opt': "opt' = JObj ss'"
    using assms(3,4) by (auto simp: ec_fits_def split: jval.splits)
  have d: "distinct (map fst ss)" and wfs: "\<forall>kv \<in> set ss. wf_json (snd kv)"
    using assms(2) opt by (simp_all add: list_all_iff)
  have wft: "\<forall>kv \<in> set ts. wf_json (snd kv)"
    using assms(1) x by (simp add: list_all_iff)
  have "ec_agree (map_of (jmerge_fields ts ss) k) v'"
    if kv': "(k, v') \<in> set ss'" and comp: "is_component k" for k v'
  proof -
    have a': "ec_agree (map_of ts k) v'"
      using assms(4) x opt' kv' comp by (auto simp: ec_fits_def list_all_iff)
    show ?thesis
    proof (cases "map_of ss k")
      case None
      with a' d show ?thesis by (simp add: map_of_jmerge_fields)
    next
      case (Some v)
      then have kv: "(k, v) \<in> set ss" by (rule map_of_SomeD)
      have a: "ec_agree (map_of ts k) v"
        using assms(3) x opt kv comp by (auto simp: ec_fits_def list_all_iff)
      have vv': "ec_agree (Some v) v'"
        using assms(5) opt opt' kv' comp Some by (auto simp: ec_fits_def list_all_iff)
      have wfv: "wf_json v" using wfs kv by auto
      show ?thesis
      proof (cases "map_of ts k")
        case None
        with Some d vv' show ?thesis by (simp add: map_of_jmerge_fields)
      next
        case (Some t)
        with a a' have "ec_agree (Some (jmerge t v)) v'"
          by (intro ec_agree_jmerge [OF _ _ vv' wfv]) simp_all
        with Some \<open>map_of ss k = Some v\<close> d show ?thesis
          by (simp add: map_of_jmerge_fields del: ec_agree.simps)
      qed
    qed
  qed
  with x opt opt' show ?thesis
    by (auto simp: ec_fits_def list_all_iff)
qed

lemma options_fit:
  "ec_fits china_option china_option" "ec_fits china_option jx_option"
  "ec_fits jx_option china_option" "ec_fits jx_option jx_option"
  by (simp_all add: ec_fits_def is_component_def model_data)

lemma ec_inv_jmerge:
  "ec_inv x \<Longrightarrow> opt = china_option \<or> opt = jx_option \<Longrightarrow> ec_inv (jmerge x opt)"
  by (auto simp: ec_inv_def jmerge_wf china_option_wf jx_option_wf options_fit intro!: ec_fits_jmerge)

text \<open>The option a click leaves on the chart of a reachable world: the national
  option applied once, or followed by Jiangxi's or by the national one again.\<close>

lemma click_option_cases:
  assumes "reachable w" and "live_chart w = Some c" and "live_chart (canvas_click t w) = Some c'"
  shows "ch_option c' = apply_option (w_mode w) (ch_option c) china_option \<or>
         ch_option c' = apply_option (w_mode w)
                          (apply_option (w_mode w) (ch_option c) china_option) jx_option \<or>
         ch_option c' = apply_option (w_mode w)
                          (apply_option (w_mode w) (ch_option c) china_option) china_option"
proof -
  have "chart_ok w c" using assms(1,2) by (rule reachable_live_ok)
  then have n: "ch_zr_click c = 1" "ch_click c = 1" by (simp_all add: chart_ok_def)
  let ?w1 = "on_background_click w"
  let ?x1 = "apply_option (w_mode w) (ch_option c) china_option"
  have w1: "live_chart ?w1 = Some (c\<lparr>ch_option := ?x1\<rparr>)" "w_mode ?w1 = w_mode w"
    using assms(2) by (simp_all add: on_background_click_def chart_simps)
  show ?thesis
  proof (cases t)
    case None
    with assms(2,3) n w1 show ?thesis by (auto simp: canvas_click_live)
  next
    case (Some name)
    then have c': "live_chart (on_feature_click name ?w1) = Some c'"
      using assms(2,3) n by (simp add: canvas_click_live)
    consider "js_truthy (name_to_code_get name)" "name \<noteq> jiangxi" | "name = jiangxi"
      | "\<not> js_truthy (name_to_code_get name)" by blast
    then show ?thesis
    proof cases
      case 1
      with c' w1 show ?thesis by (auto simp: on_feature_click_truthy_other)
    next
      case 2
      with c' w1 show ?thesis by (auto simp: on_feature_click_jiangxi chart_simps)
    next
      case 3
      with c' w1 show ?thesis by (auto simp: on_feature_click_falsy on_background_click_def chart_simps)
    qed
  qed
qed

lemma react_commit_mode: "w_mode (react_commit r w) = w_mode w"
  by (simp add: react_commit_def react_unmount_def effect_cleanup_def mount_effect_def chart_simps)

lemma ec_inv_china: "ec_inv china_option"
  by (simp add: ec_inv_def china_option_wf options_fit)

lemma reachable_ec_inv:
  "reachable w \<Longrightarrow> w_mode w = Merge \<Longrightarrow> live_chart w = Some c \<Longrightarrow> ec_inv (ch_option c)"
proof (induction w arbitrary: c rule: reachable.induct)
  case (start m)
  then show ?case by (simp add: init_world_def live_chart_def)
next
  case (commit w r)
  have u: "live_chart (react_unmount w) = None"
    using commit.hyps by (intro react_unmount_inv(2) reachable_app_inv)
  show ?case
  proof (cases r)
    case True
    with u commit.prems(2) show ?thesis
      by (auto simp: react_commit_def mount_effect_live ec_inv_china)
  next
    case False
    with commit_view(2) [OF commit.hyps] commit.prems(2) show ?thesis by simp
  qed
next
  case (unmount w)
  have "live_chart (react_unmount w) = None"
    using unmount.hyps by (intro react_unmount_inv(2) reachable_app_inv)
  with unmount.prems(2) show ?case by simp
next
  case (click w t)
  have mode: "w_mode w = Merge" using click.prems(1) by (simp add: canvas_click_mode)
  obtain c0 where c0: "live_chart w = Some c0"
    using click.prems(2) by (cases "live_chart w") (simp_all add: canvas_click_dead)
  have inv0: "ec_inv (ch_option c0)" using mode c0 by (rule click.IH)
  have "ec_inv (jmerge (ch_option c0) china_option)"
    using inv0 by (simp add: ec_inv_jmerge)
  then show ?case
    using click_option_cases [OF click.hyps(1) c0 click.prems(2)] mode
    by (auto simp: ec_inv_jmerge)
qed

lemma ec_fits_empty: "ec_fits (JObj []) (JObj ss)"
  by (induction ss) (auto simp: ec_fits_def)

subsection \<open>The library's merge and the model's\<close>

text \<open>
  On every option the component hands to \<^verbatim>\<open>setOption\<close> under echarts'
  merging (the national option on a fresh chart, and either option on the chart of a
  reachable world), the library's component-wise merge yields the normalisation of
  the model's whole-value merge: the model of \<^verbatim>\<open>setOption\<close> that the rest of the
  development uses is exact for this program.
\<close>

lemma component_merge_agrees:
  assumes "reachable w" and "w_mode w = Merge" and "live_chart w = Some c"
    and "opt = china_option \<or> opt = jx_option"
  shows "ec_norm (apply_option (w_mode w) (ch_option c) opt) = ec_merge (ec_norm (ch_option c)) opt
    \<and> ec_norm (apply_option (w_mode w) (JObj []) china_option) =
        ec_merge (ec_norm (JObj [])) china_option"
proof -
  have inv: "ec_inv (ch_option c)"
    using assms(1-3) by (rule reachable_ec_inv)
  have wf: "wf_json opt" and fits: "ec_fits (ch_option c) opt"
    using assms(4) inv by (auto simp: ec_inv_def china_option_wf jx_option_wf)
  have "ec_fits (JObj []) china_option"
    by (simp add: china_option_def ec_fits_empty)
  then have "ec_norm (jmerge (JObj []) china_option) = ec_merge (ec_norm (JObj [])) china_option"
    by (rule ec_merge_agrees [OF china_option_wf])
  with ec_merge_agrees [OF wf fits] assms(2) show ?thesis
    by simp
qed

end
