(* ===== verification/Spec2Isabelle.thy ===== *)
theory Spec2Isabelle
  imports Failures Literals Components
begin

text \<open>
  \<^bold>\<open>A verification of the China map component of demo-react-ts-echarts-map.\<close>

  \<^bold>\<open>The program.\<close> The repository has one source file, \<^verbatim>\<open>src/src/App.tsx\<close>:
  a React component that draws a choropleth of China with echarts and drills into
  Jiangxi on a click. Its parts and how they interact:
  \<^item> two option objects, \<^verbatim>\<open>chinaOption\<close> (lines 15--153) and \<^verbatim>\<open>jxOption\<close>
    (lines 155--195), handed to \<^verbatim>\<open>setOption\<close>;
  \<^item> the table \<^verbatim>\<open>nameToCode\<close> (lines 197--233), read by the click handler to
    classify the clicked feature;
  \<^item> an effect (lines 235--265, no dependency list) that creates the chart, registers
    the national map, applies \<^verbatim>\<open>chinaOption\<close>, subscribes a chart \<^verbatim>\<open>click\<close>
    handler (242--254) and a zrender \<^verbatim>\<open>click\<close> handler (256--259), and returns a
    cleanup (260--263) that unsubscribes and disposes the chart;
  \<^item> the echarts library, which owns the global map registry, the chart instance and
    the delivery of clicks. zrender runs the handlers added with \<^verbatim>\<open>getZr().on\<close>
    on every click, before echarts' own dispatcher (registered to run last) raises the
    chart's \<^verbatim>\<open>click\<close> event for a click on a feature.

  \<^bold>\<open>The theories.\<close>
  \<^item> \<open>Prelude\<close>: JavaScript strings as lists of UTF-16 code units (\<open>js_string\<close>,
    ASCII literals through \<open>js\<close>), object literals as association lists
    (\<open>AList.update\<close> is property assignment), the constant \<open>jiangxi\<close>.
  \<^item> \<open>Json\<close>: option values (\<open>jval\<close>), path lookup \<open>jget\<close>, well-formedness
    \<open>wf_json\<close>, and zrender's deep merge \<open>jmerge\<close>, which \<^verbatim>\<open>setOption\<close>
    applies. Lemmas: the merge keeps well-formedness (\<open>jmerge_wf\<close>), keeps every leaf
    of the new option (\<open>jmerge_keeps_leaf\<close>), is idempotent (\<open>jmerge_same\<close>),
    and merging into an empty option yields the new one (\<open>jmerge_into_empty\<close>).
  \<^item> \<open>Options\<close>: \<open>china_option\<close> and \<open>jx_option\<close>, key by key.
  \<^item> \<open>Regions\<close>: \<open>name_to_code\<close>; \<open>name_to_code_get\<close>, the property read of line
    243 with JavaScript's prototype lookup (\<open>object_prototype_keys\<close>), and
    \<open>js_truthy\<close>, the test applied to it.
  \<^item> \<open>Chart\<close>: the library as a \<open>world\<close> record: the map registry, the chart bound
    to the component's \<open>div\<close> (option, handler counts, disposed flag), the log of
    calls, React's pending cleanup, and the \<open>merge_mode\<close> of \<^verbatim>\<open>setOption\<close>
    (\<open>Replace\<close>, the specification's applyConfiguration; \<open>Merge\<close>, the library's
    default). One definition per library call (\<open>chart_init\<close>, \<open>register_map\<close>,
    \<open>chart_set_option\<close>, \<open>chart_on_click\<close>, \<open>zr_on_click\<close>,
    \<open>chart_off_click\<close>, \<open>chart_dispose\<close>) and \<open>deliver_click\<close>, the click
    delivery, over the component's handlers as parameters.
  \<^item> \<open>App\<close>: the component's code: \<open>on_feature_click\<close>, \<open>on_background_click\<close>,
    \<open>mount_effect\<close>, \<open>effect_cleanup\<close>; their composition by React
    (\<open>react_commit\<close>, \<open>react_unmount\<close>) and by the library (\<open>canvas_click\<close>);
    the reachable worlds (\<open>reachable\<close>, from the initial world of either mode); the
    view a chart shows (\<open>view_of\<close>, read from \<^verbatim>\<open>geo.map\<close>); the invariant
    \<open>app_inv\<close> with \<open>chart_ok\<close>, proved for every reachable world
    (\<open>reachable_app_inv\<close>, by rule induction from one preservation lemma per step).
  \<^item> \<open>Lifecycle\<close>: the specification's view-state machine (section 4.1:
    \<open>spec_feature\<close>, \<open>spec_background\<close>, \<open>spec_dispatch\<close>), the events of
    the component's life (\<open>app_event\<close>: a commit with or without the element, an
    unmount, a click), \<open>app_step\<close> applying \<open>react_commit\<close>,
    \<open>react_unmount\<close> or \<open>canvas_click\<close>, \<open>run\<close> over a sequence, and the
    abstract lifecycle \<open>spec_life\<close> (unmounted, or showing a view) with the
    abstraction \<open>life_of\<close>. Lemmas: one click refines the machine
    (\<open>click_view_step\<close>), one event refines the lifecycle (\<open>life_step\<close>).
  \<^item> \<open>Literals\<close>: JavaScript's reading of an object literal, where the last
    occurrence of a key wins (\<open>js_literal_get\<close>, \<open>jget_literal\<close>), and
    \<open>jstrings\<close>, the strings an option holds.
  \<^item> \<open>Errors\<close>: the exception paths. The handlers, the effect, React's commit and
    the click delivery again, with a thrown exception as a value of
    \<open>(js_error \<times> world) + world\<close> (\<open>Inl\<close> carries the world the throw leaves,
    the calls made before it included): \<open>register_map_ex\<close> throws on a dataset the
    engine rejects (the parameter \<open>bad\<close>, the engine's verdict at the time of the
    call), \<open>ex_bind\<close> skips the rest of a body after a throw,
    \<open>on_feature_click_ex\<close>, \<open>on_background_click_ex\<close>, \<open>mount_effect_ex\<close>
    translate lines 242--254, 256--259 and 235--260, \<open>react_commit_ex\<close> keeps no
    cleanup for an effect that threw, and \<open>deliver_click_ex\<close> ends zrender's
    dispatch at the throwing handler.
  \<^item> \<open>Failures\<close>: exceptions along whole traces: \<open>app_step_ex\<close> (a commit, an
    unmount or a click, each with its own verdict \<open>bad\<close> of the engine),
    \<open>outcome_world\<close> (the world an event leaves, thrown or not) and the inductive
    \<open>reachable_ex\<close>; the invariant \<open>ex_inv\<close> (a live chart is the handler-less
    leftover of a failed mount, or a chart satisfying \<open>chart_ok\<close> whose cleanup React
    holds) is proved for every reachable world by rule induction from one preservation
    lemma per event (\<open>ex_inv_commit\<close>, \<open>ex_inv_unmount\<close>, \<open>ex_inv_click\<close>).
    The traces let any event follow an effect that threw. Without an error boundary
    React instead unmounts the whole root, which is the \<open>Unmount\<close> event here (no
    cleanup is held); with one, the component may be committed again. The traces
    therefore include every continuation React can take, and more.
  \<^item> \<open>Components\<close>: the library's own merge of \<^verbatim>\<open>setOption\<close>, component by
    component (\<open>ec_merge\<close>: component keys, \<open>is_component\<close>, normalised to arrays,
    \<open>cmpt_list\<close>, matched by index and deep-merged, \<open>merge_by_index\<close>; other keys
    merged as values), the invariant \<open>ec_inv\<close> of every option a merging chart of the
    component holds (\<open>reachable_ec_inv\<close>), and the agreement of the two merges
    under it (\<open>ec_merge_agrees\<close>).
  \<^item> \<open>Spec2Isabelle\<close> (this theory): the properties that span the components: the
    refinement of the view-state machine by the clicks (C1, C13) and the round trip of
    section 8.5 under both \<^verbatim>\<open>setOption\<close> semantics (C10, C11, C23).

  \<^bold>\<open>The properties.\<close> C1 (refinement): along any sequence of clicks on a reachable world
  the view follows the specification's machine, each click taken as a background reset
  followed by the specification's dispatch. C2--C4 (invariant,
  safety): the shown view is the one of the last \<^verbatim>\<open>setOption\<close>; each handler is
  subscribed once; the drawn map is registered. C5--C9 (the specification's section 8,
  with the exact calls issued): mount, drill-down, a known non-target province, an
  unknown name, the unconditional background reset. C10, C11: the round trip. C12: after
  unmount, clicks change nothing. C13: the chart handler alone refines
  \<open>onFeatureClicked\<close> except for inherited names; C14, C15: those inherited names;
  C16: the Zhejiang data is never registered. C17: a commit while the ref is empty
  releases the previous chart and issues nothing else. C18 (refinement): along any
  interleaving of commits, unmounts and clicks the component follows the abstract
  lifecycle. C19 (liveness): from every reachable world the national view and
  Jiangxi's, and no other, can be reached within two events. C20--C22 (error): a
  rejected national dataset during a commit leaks the chart (no cleanup reaches React);
  a rejected Jiangxi dataset leaves the national view; a rejected national dataset in
  the zrender handler cancels the chart handler of the same click. C23 (round trip):
  under merging, any positive number of round trips leaves the same residue as one.
  C24, C25 (invariant, liveness): along any trace in which any \<^verbatim>\<open>registerMap\<close>
  may be rejected, no click is dispatched twice and a chart has its handlers exactly
  when React holds its cleanup; a later commit in which the national dataset is
  accepted always recovers the national view.

  \<^bold>\<open>Lemmas about the model.\<close> Some facts check the model rather than the program
  and are kept as lemmas: the inductive reachability equals the runs of the events
  (\<open>Lifecycle.reachable_iff_run\<close>); JavaScript's last-wins reading of the literals
  agrees with the model's first-match reading, the table's codes are province-level
  division codes, and every string of the data is below the surrogates
  (\<open>Literals.literal_reading_agrees\<close>, \<open>name_to_code_bounds\<close>,
  \<open>option_strings_bmp\<close>); the exception-aware operations equal the plain ones when no
  dataset is rejected, and the failure-free worlds are among the worlds with failures
  (\<open>Errors.exceptions_conservative\<close>, \<open>Failures.reachable_within_failures\<close>); and
  echarts' component-wise merge agrees with the whole-value merge on every option the
  component applies (\<open>Components.component_merge_agrees\<close>).

  \<^bold>\<open>Bounds and fuel.\<close> The program has no loop, so there is no fuel and no
  termination claim: every recursive definition of the model (\<open>jmerge\<close>,
  \<open>wf_json\<close>, \<open>jget\<close>, \<open>jstrings\<close>, \<open>merge_by_index\<close>,
  \<open>ec_merge_fields\<close>, \<open>ex_iter\<close>) is structural and total. The only iteration
  is the library's running of each subscribed handler (\<open>f ^^ n\<close> in
  \<open>deliver_click\<close>, \<open>ex_iter\<close> in \<open>deliver_click_ex\<close>); the invariants fix each
  count at 1, and at most 1 when mounts may fail (C24). Numbers of the options are
  rationals (no arithmetic is done on them); region codes are integers
  (\<open>name_to_code_bounds\<close>).
  String code units are below \<open>2 ^ 16\<close> (\<open>js_code_units\<close>) and, for the data of
  the program, below the surrogates (\<open>option_strings_bmp\<close>), which justifies one code unit per
  character. The liveness bound of C19 is two events: one commit and one click.

  \<^bold>\<open>Not modelled.\<close> Rendering, hit-testing, roaming and animation (the library's),
  the boundary data files (opaque; three \<open>dataset\<close> constructors), the JSX and
  imports. The library's \<^verbatim>\<open>setOption\<close> matches components by id, then name,
  then index; \<open>Components\<close> matches by index only, which is the library's matching
  for the program's options (no component has an id; the three series keep their
  names at their indices), and \<open>component_merge_agrees\<close> shows that on those options the component-wise
  merge is the whole-value merge the rest of the development uses. Paths of \<open>jget\<close>
  do not enter arrays.

  Exceptions other than a rejected dataset (the engine's own faults, out of memory)
  are not modelled. In echarts the geometry of a registered map is parsed when an
  option first draws it, so a malformed dataset surfaces at the \<^verbatim>\<open>setOption\<close> that
  follows each \<^verbatim>\<open>registerMap\<close> of the source; the model follows the
  specification (section 4.2) and throws at the registration. Either way the exception
  leaves the effect or handler before any later statement of the source runs.

  The program has nothing more to model: its remaining lines are the imports, the
  module-level \<^verbatim>\<open>require\<close> of the three datasets (the \<open>dataset\<close>
  constructors), the declaration of the component and its ref, and the JSX that renders
  the \<^verbatim>\<open>div\<close> the ref points to (the \<open>Commit\<close> events carry whether the ref
  holds it). The boundary files themselves are not in the repository's sources.
\<close>

text \<open>What \<^verbatim>\<open>jxOption\<close> leaves behind in a merged option: its \<^verbatim>\<open>geo.geoIndex\<close>.\<close>

abbreviation geo_index_patch :: jval where
  "geo_index_patch \<equiv> JObj [(js ''geo'', JObj [(js ''geoIndex'', JNum 1)])]"

section \<open>Refinement\<close>

lemma reachable_clicks: "reachable w \<Longrightarrow> reachable (fold canvas_click ts w)"
  by (induction ts arbitrary: w) (simp_all add: reachable.click)

text \<open>
  C1. Along any sequence of clicks on the canvas of a reachable world, the view the
  chart shows follows the specification's machine, each click taken as a background
  reset followed by the specification's dispatch of that click: the component's zrender
  handler fires on every click, before the chart's own handler.
\<close>

theorem clicks_refine_spec:
  assumes "reachable w" and "view_of w = Some v"
  shows "view_of (fold canvas_click ts w) =
           Some (fold (\<lambda>t v. spec_dispatch (spec_background v) t) ts v)"
  using assms
proof (induction ts arbitrary: w v)
  case Nil
  then show ?case by simp
next
  case (Cons t ts)
  have "view_of (canvas_click t w) = Some (spec_dispatch (spec_background v) t)"
    using Cons.prems by (rule click_view_step)
  moreover have "reachable (canvas_click t w)"
    using Cons.prems(1) by (rule reachable.click)
  ultimately show ?case
    by (simp add: Cons.IH)
qed

theorem clicks_refine_spec_witness:
  "reachable (mounted_world Merge) \<and> view_of (mounted_world Merge) = Some National \<and>
   view_of (fold canvas_click [Some jiangxi, Some (js ''nowhere''), None] (mounted_world Merge)) =
     Some National"
proof -
  have "view_of (fold canvas_click [Some jiangxi, Some (js ''nowhere''), None] (mounted_world Merge)) =
      Some (fold (\<lambda>t v. spec_dispatch (spec_background v) t)
              [Some jiangxi, Some (js ''nowhere''), None] National)"
    by (rule clicks_refine_spec [OF mounted_world_facts(1,3)])
  then show ?thesis
    using mounted_world_facts(1,3) by (simp add: spec_background_def)
qed

section \<open>The round trip of the specification's section 8\<close>

lemma merge_round_trip_options:
  "jmerge (jmerge china_option jx_option) china_option = jmerge china_option geo_index_patch"
  by (simp add: model_data)

lemma geo_index_patch_changes: "jmerge china_option geo_index_patch \<noteq> china_option"
  by (simp add: model_data)

lemma round_trip_option:
  assumes "reachable w" and "live_chart w = Some c"
  shows "live_chart (canvas_click None (canvas_click (Some jiangxi) w)) =
    Some (c\<lparr>ch_option := apply_option (w_mode w)
      (apply_option (w_mode w) (apply_option (w_mode w) (ch_option c) china_option) jx_option)
      china_option\<rparr>)"
proof -
  let ?w1 = "canvas_click (Some jiangxi) w"
  have r1: "reachable ?w1" using assms(1) by (rule reachable.click)
  have l1: "live_chart ?w1 = Some (c\<lparr>ch_option := apply_option (w_mode w)
                   (apply_option (w_mode w) (ch_option c) china_option) jx_option\<rparr>)"
    using assms by (rule drill_click_option)
  show ?thesis
    using background_click_option [OF r1 l1] by (simp add: canvas_click_mode)
qed

text \<open>
  C10. With the specification's applyConfiguration, which replaces the whole option,
  drilling into Jiangxi and clicking the background returns a chart that showed the
  national option to exactly that option.
\<close>

theorem roundtrip_replace:
  assumes "reachable w" and "w_mode w = Replace" and "live_chart w = Some c"
    and "ch_option c = china_option"
  shows "live_chart (canvas_click None (canvas_click (Some jiangxi) w)) = Some c"
  using round_trip_option [OF assms(1,3)] assms(2,4) by simp

theorem roundtrip_replace_witness:
  "reachable (mounted_world Replace) \<and> w_mode (mounted_world Replace) = Replace \<and>
   live_chart (mounted_world Replace) = Some mounted_chart \<and>
   live_chart (canvas_click None (canvas_click (Some jiangxi) (mounted_world Replace))) =
     Some mounted_chart"
  using roundtrip_replace [OF mounted_world_facts(1,4,2)] mounted_world_facts(1,4,2) by simp

text \<open>
  C11. With echarts' default \<^verbatim>\<open>setOption\<close>, which merges, the same round trip
  restores every setting of \<^verbatim>\<open>chinaOption\<close> and the national view, but the
  option is not \<^verbatim>\<open>chinaOption\<close> by value: it is \<^verbatim>\<open>chinaOption\<close> merged with
  the \<^verbatim>\<open>geo.geoIndex: 1\<close> that only \<^verbatim>\<open>jxOption\<close> sets.
\<close>

theorem roundtrip_merge_residue:
  assumes "reachable w" and "w_mode w = Merge" and "live_chart w = Some c"
    and "ch_option c = china_option"
  shows "live_chart (canvas_click None (canvas_click (Some jiangxi) w)) =
           Some (c\<lparr>ch_option := jmerge china_option geo_index_patch\<rparr>)
    \<and> jmerge china_option geo_index_patch \<noteq> china_option
    \<and> view_of (canvas_click None (canvas_click (Some jiangxi) w)) = Some National"
proof -
  have same: "jmerge china_option china_option = china_option"
    by (rule jmerge_same, rule china_option_wf)
  have live: "live_chart (canvas_click None (canvas_click (Some jiangxi) w)) =
           Some (c\<lparr>ch_option := jmerge china_option geo_index_patch\<rparr>)"
    using round_trip_option [OF assms(1,3)] assms(2,4)
    by (simp add: same merge_round_trip_options)
  have "view_of_option (jmerge china_option geo_index_patch) = Some National"
    by (simp add: view_of_option_def china_option_def)
  with live geo_index_patch_changes show ?thesis
    by (simp add: view_of_live)
qed

theorem roundtrip_merge_residue_witness:
  "reachable (mounted_world Merge) \<and> w_mode (mounted_world Merge) = Merge \<and>
   live_chart (mounted_world Merge) = Some mounted_chart \<and>
   live_chart (canvas_click None (canvas_click (Some jiangxi) (mounted_world Merge))) \<noteq>
     Some mounted_chart"
  using roundtrip_merge_residue [OF mounted_world_facts(1,4,2)] mounted_world_facts(1,4,2)
  by simp

lemma merge_round_trip_patched:
  "jmerge (jmerge (jmerge (jmerge china_option geo_index_patch) china_option) jx_option)
     china_option = jmerge china_option geo_index_patch"
  by (simp add: model_data)

lemma round_trip_step_merge:
  assumes "reachable w" and "w_mode w = Merge" and "live_chart w = Some c"
    and "ch_option c = china_option \<or> ch_option c = jmerge china_option geo_index_patch"
  shows "live_chart (run [Click (Some jiangxi), Click None] w) =
           Some (c\<lparr>ch_option := jmerge china_option geo_index_patch\<rparr>)"
    and "reachable (run [Click (Some jiangxi), Click None] w)"
    and "w_mode (run [Click (Some jiangxi), Click None] w) = Merge"
proof -
  have same: "jmerge china_option china_option = china_option"
    by (rule jmerge_same, rule china_option_wf)
  show "live_chart (run [Click (Some jiangxi), Click None] w) =
           Some (c\<lparr>ch_option := jmerge china_option geo_index_patch\<rparr>)"
    using round_trip_option [OF assms(1,3)] assms(2,4)
    by (auto simp: same merge_round_trip_options merge_round_trip_patched)
  show "reachable (run [Click (Some jiangxi), Click None] w)"
    using assms(1) by (rule reachable_run)
  show "w_mode (run [Click (Some jiangxi), Click None] w) = Merge"
    using assms(2) by (simp add: canvas_click_mode)
qed

text \<open>
  C23. Under echarts' merging \<^verbatim>\<open>setOption\<close>, the residue of C11 does not grow:
  after any positive number of round trips (a click on Jiangxi, then on the
  background) from the national option, the chart holds \<^verbatim>\<open>chinaOption\<close> merged
  with the one \<^verbatim>\<open>geo.geoIndex\<close> of \<^verbatim>\<open>jxOption\<close>, the same option as after one.
\<close>

theorem roundtrip_merge_stable:
  assumes "reachable w" and "w_mode w = Merge" and "live_chart w = Some c"
    and "ch_option c = china_option" and "0 < n"
  shows "live_chart (run (concat (replicate n [Click (Some jiangxi), Click None])) w) =
           Some (c\<lparr>ch_option := jmerge china_option geo_index_patch\<rparr>)"
proof -
  obtain m where n: "n = Suc m" using assms(5) by (cases n) auto
  have "reachable w \<Longrightarrow> w_mode w = Merge \<Longrightarrow> live_chart w = Some c \<Longrightarrow>
      ch_option c = china_option \<or> ch_option c = jmerge china_option geo_index_patch \<Longrightarrow>
      live_chart (run (concat (replicate (Suc m) [Click (Some jiangxi), Click None])) w) =
        Some (c\<lparr>ch_option := jmerge china_option geo_index_patch\<rparr>)" for w c
  proof (induction m arbitrary: w c)
    case 0
    then show ?case by (simp add: round_trip_step_merge(1) del: run_Cons)
  next
    case (Suc m)
    let ?w1 = "run [Click (Some jiangxi), Click None] w"
    let ?c1 = "c\<lparr>ch_option := jmerge china_option geo_index_patch\<rparr>"
    have "live_chart (run (concat (replicate (Suc m) [Click (Some jiangxi), Click None])) ?w1) =
        Some (?c1\<lparr>ch_option := jmerge china_option geo_index_patch\<rparr>)"
      using Suc.prems round_trip_step_merge [OF Suc.prems] by (intro Suc.IH) simp_all
    moreover have "run (concat (replicate (Suc (Suc m)) [Click (Some jiangxi), Click None])) w =
        run (concat (replicate (Suc m) [Click (Some jiangxi), Click None])) ?w1"
      by (simp only: replicate_Suc concat.simps run_append)
    ultimately show ?case
      by simp
  qed
  with assms n show ?thesis by simp
qed

theorem roundtrip_merge_stable_witness:
  "reachable (mounted_world Merge) \<and> w_mode (mounted_world Merge) = Merge \<and>
   live_chart (mounted_world Merge) = Some mounted_chart \<and> (0::nat) < 3 \<and>
   live_chart (run (concat (replicate 3 [Click (Some jiangxi), Click None])) (mounted_world Merge)) =
     Some (mounted_chart\<lparr>ch_option := jmerge china_option geo_index_patch\<rparr>)"
  using roundtrip_merge_stable [OF mounted_world_facts(1,4,2), of 3] mounted_world_facts(1,4,2)
  by simp

section \<open>The chart handler alone\<close>

text \<open>
  C13. For every clicked name that is not inherited from \<^verbatim>\<open>Object.prototype\<close>,
  the chart's click handler (lines 242--254) on its own implements the specification's
  \<open>onFeatureClicked\<close>: unknown names reset to the national view, known names other
  than Jiangxi leave the view as it is, Jiangxi drills down to code 360000.
\<close>

theorem feature_handler_refines_spec:
  assumes "reachable w" and "view_of w = Some v" and "name \<notin> set object_prototype_keys"
  shows "view_of (on_feature_click name w) = Some (spec_feature v name)"
proof -
  obtain c where live: "live_chart w = Some c"
    using view_of_Some_live [OF assms(2)] by blast
  have ok: "chart_ok w c" using assms(1) live by (rule reachable_live_ok)
  have v: "view_of_option (ch_option c) = Some v"
    using assms(2) live by (simp add: view_of_live)
  obtain c' where c': "live_chart (on_feature_click name w) = Some c'"
    "view_of_option (ch_option c') =
       (if js_truthy (name_to_code_get name) \<and> name \<noteq> jiangxi then view_of_option (ch_option c)
        else if name = jiangxi then Some (Province 360000) else Some National)"
    using on_feature_click_ok [OF live ok] by blast
  have truthy: "js_truthy (name_to_code_get name) \<longleftrightarrow> region_code name \<noteq> None"
  proof
    assume "js_truthy (name_to_code_get name)"
    with assms(3) show "region_code name \<noteq> None"
      by (auto simp: name_to_code_get_def split: option.splits)
  qed (rule region_code_truthy)
  show ?thesis
    using c' v truthy
    by (auto simp: view_of_live spec_feature_def jiangxi_code split: option.split)
qed

theorem feature_handler_refines_spec_witness:
  "reachable (canvas_click (Some jiangxi) (mounted_world Merge)) \<and>
   view_of (canvas_click (Some jiangxi) (mounted_world Merge)) = Some (Province 360000) \<and>
   [0x5B89, 0x5FBD, 0x7701] \<notin> set object_prototype_keys \<and>
   view_of (on_feature_click [0x5B89, 0x5FBD, 0x7701] (canvas_click (Some jiangxi) (mounted_world Merge)))
     = Some (Province 360000)"
proof -
  have r: "reachable (canvas_click (Some jiangxi) (mounted_world Merge))"
    by (rule reachable.click, rule mounted_world_facts(1))
  have v: "view_of (canvas_click (Some jiangxi) (mounted_world Merge)) = Some (Province 360000)"
    using click_view_step [OF mounted_world_facts(1,3), of "Some jiangxi"]
    by (simp add: spec_background_def spec_feature_National)
  have k: "[0x5B89, 0x5FBD, 0x7701] \<notin> set object_prototype_keys"
    by (simp add: object_prototype_keys_def js_def)
  have "spec_feature (Province 360000) [0x5B89, 0x5FBD, 0x7701] = Province 360000"
    by (simp add: spec_feature_def name_to_code_def)
  then show ?thesis
    using feature_handler_refines_spec [OF r v k] r v k by simp
qed

end
